theory Spec2Isabelle
  imports Complex_Main "HOL-Library.Sublist"
begin

section \<open>Data model\<close>

text \<open>
  JavaScript strings are modelled as \<^typ>\<open>string\<close>; a \<^typ>\<open>char\<close> stands for one code
  unit, so \<^const>\<open>length\<close> is \<^verbatim>\<open>.length\<close> and \<^const>\<open>take\<close> is
  \<^verbatim>\<open>.substring(0, n)\<close>. JavaScript numbers that the code only stores, tests for
  truthiness or hands to a formatter are modelled as \<^typ>\<open>real\<close> (NaN, the second falsy
  number, has no counterpart). Mongo object ids are natural numbers.
\<close>

type_synonym vector = "real list"

text \<open>A thrown JavaScript \<^verbatim>\<open>Error\<close>, with its \<^verbatim>\<open>message\<close>.\<close>

datatype error = Error (message: string)

text \<open>\<^verbatim>\<open>IDocument\<close> of \<^verbatim>\<open>models/Document\<close>, with the fields the controllers write.\<close>

record document =
  doc_id :: nat
  title :: string
  content :: string
  category :: string
  tags :: "string list"
  embedding :: vector
  uploadedBy :: nat
  isPublic :: bool
  isChunk :: bool
  parentDocumentId :: "nat option"
  chunkIndex :: "nat option"
  chunkCount :: "nat option"

text \<open>\<^verbatim>\<open>IDocument & { similarity?: number }\<close>, the element type of retrieval results.\<close>

record retrieved = document +
  similarity :: "real option"

record conversation =
  conv_id :: nat
  conv_user :: nat
  conv_title :: string
  lastMessage :: string

datatype role = RoleUser | RoleModel

record chat =
  chat_user :: nat
  chat_conversation :: nat
  chat_role :: role
  chat_text :: string

text \<open>One element of the value \<^verbatim>\<open>chunkText\<close> returns: the controller reads
  \<^verbatim>\<open>chunk.text\<close> and \<^verbatim>\<open>chunk.index\<close>.\<close>

record chunk =
  chunk_text :: string
  chunk_index :: nat

text \<open>The body of the embedding provider's HTTP response, as far as
  \<^verbatim>\<open>response.data?.data?.[0]?.embedding\<close> reads it: every level may be missing.\<close>

datatype VoyageItem = VoyageItem (item_embedding: "vector option")

datatype VoyageEmbeddingResponse = VoyageEmbeddingResponse (voyage_data: "VoyageItem list option")

datatype AxiosResponse = AxiosResponse (axios_data: "VoyageEmbeddingResponse option")

text \<open>What the outside world can observe of a run: the requests sent to the embedding
  provider, the index queries, the prompts sent to the generative provider, and the lines
  written with \<^verbatim>\<open>console.error\<close> (their fixed label, without the leading pictograph
  and without the rendering of the error object).\<close>

datatype event =
    EmbeddingRequest string
  | VectorSearchQuery vector nat
  | TextSearchQuery string nat
  | GenerateContent string
  | ConsoleError string

text \<open>
  The state threaded through every operation: the three Mongo collections, the next fresh
  object id, the outcome of the database operations still to come (\<open>faults\<close>: each database
  operation consumes the head; \<open>Some e\<close> makes it throw \<open>e\<close>, \<open>None\<close> or an exhausted list
  lets it succeed), and the trace of observable events, oldest first.
\<close>

record world =
  documents :: "document list"
  conversations :: "conversation list"
  chats :: "chat list"
  nextId :: nat
  faults :: "error option list"
  trace :: "event list"

text \<open>
  The collaborators whose code is not part of the modelled sources, taken as parameters:
  the process environment, the two remote providers (the embedding provider's answer, and the
  time it takes to arrive, may depend on how many events precede the request, so that two
  requests with the same text can fare differently), the query surface of \<^verbatim>\<open>models/Document\<close>
  (\<^verbatim>\<open>vectorSearch\<close>, \<^verbatim>\<open>findSimilar\<close>, both reading the stored documents; the
  latter yields plain \<^verbatim>\<open>IDocument\<close>s), the helpers of \<^verbatim>\<open>utils/textProcessing\<close>, and
  \<^verbatim>\<open>Number.prototype.toFixed\<close>.
\<close>

record env =
  GEMINI_API_KEY :: "string option"
  VOYAGE_API_KEY :: "string option"
  axios_post :: "nat \<Rightarrow> string \<Rightarrow> error + AxiosResponse"
  latency :: "nat \<Rightarrow> string \<Rightarrow> nat"
  generateContent :: "string \<Rightarrow> error + string"
  vectorSearch :: "document list \<Rightarrow> vector \<Rightarrow> nat \<Rightarrow> error + retrieved list"
  findSimilar :: "document list \<Rightarrow> string \<Rightarrow> nat \<Rightarrow> error + document list"
  truncateText :: "string \<Rightarrow> nat \<Rightarrow> string"
  chunkText :: "string \<Rightarrow> nat \<Rightarrow> nat \<Rightarrow> chunk list"
  cleanText :: "string \<Rightarrow> string"
  toFixed :: "real \<Rightarrow> nat \<Rightarrow> string"

definition emit :: "event \<Rightarrow> world \<Rightarrow> world" where
  "emit ev w = w\<lparr>trace := trace w @ [ev]\<rparr>"

section \<open>services/ragService.ts\<close>

text \<open>The constructor: \<^verbatim>\<open>this.voyageApiKey = voyageKey || ''\<close>.\<close>

definition voyageApiKey :: "env \<Rightarrow> string" where
  "voyageApiKey en = (case VOYAGE_API_KEY en of None \<Rightarrow> [] | Some k \<Rightarrow> k)"

text \<open>\<^verbatim>\<open>response.data?.data?.[0]?.embedding\<close>.\<close>

definition first_embedding :: "AxiosResponse \<Rightarrow> vector option" where
  "first_embedding r =
     (case axios_data r of
        None \<Rightarrow> None
      | Some b \<Rightarrow>
          (case voyage_data b of
             None \<Rightarrow> None
           | Some [] \<Rightarrow> None
           | Some (it # _) \<Rightarrow> item_embedding it))"

text \<open>\<^verbatim>\<open>RAGService.generateEmbedding\<close>: \<open>None\<close> is the source's \<^verbatim>\<open>null\<close>. An array is
  truthy whatever its length, so any embedding the provider sends is returned.\<close>

definition generateEmbedding :: "env \<Rightarrow> string \<Rightarrow> world \<Rightarrow> vector option \<times> world" where
  "generateEmbedding en txt w =
     (if voyageApiKey en = [] then (None, w)
      else
        (let w1 = emit (EmbeddingRequest txt) w in
         case axios_post en (length (trace w)) txt of
           Inl e \<Rightarrow> (None, emit (ConsoleError ''Error generating embedding:'') w1)
         | Inr response \<Rightarrow>
             (case first_embedding response of
                Some emb \<Rightarrow> (Some emb, w1)
              | None \<Rightarrow> (None, w1))))"

text \<open>A plain document seen as a retrieval result: the \<^verbatim>\<open>similarity\<close> property is absent.\<close>

definition unscored :: "document \<Rightarrow> retrieved" where
  "unscored d = document.extend d (retrieved.fields None)"

text \<open>Step 2 of \<^verbatim>\<open>searchDocuments\<close>, the text search inside its own \<^verbatim>\<open>try\<close>; \<open>results\<close>
  is the value the variable holds when the step is entered.\<close>

definition textSearchStep ::
  "env \<Rightarrow> string \<Rightarrow> nat \<Rightarrow> retrieved list \<Rightarrow> world \<Rightarrow> retrieved list \<times> world" where
  "textSearchStep en query limit results w =
     (let w1 = emit (TextSearchQuery query limit) w in
      case findSimilar en (documents w) query limit of
        Inr ds \<Rightarrow> (map unscored ds, w1)
      | Inl e \<Rightarrow> (results, emit (ConsoleError ''Text search failed:'') w1))"

text \<open>\<^verbatim>\<open>RAGService.searchDocuments\<close>. Both awaited calls sit in \<^verbatim>\<open>try\<close> blocks whose
  \<^verbatim>\<open>catch\<close> only logs, so the function has no throwing branch.\<close>

definition searchDocuments ::
  "env \<Rightarrow> string \<Rightarrow> vector option \<Rightarrow> nat \<Rightarrow> world \<Rightarrow> retrieved list \<times> world" where
  "searchDocuments en query emb limit w =
     (case emb of
        None \<Rightarrow> textSearchStep en query limit [] w
      | Some v \<Rightarrow>
          (if length v > 0 then
             (let w1 = emit (VectorSearchQuery v limit) w in
              case vectorSearch en (documents w) v limit of
                Inr results \<Rightarrow>
                  (if length results > 0 then (results, w1)
                   else textSearchStep en query limit results w1)
              | Inl e \<Rightarrow>
                  textSearchStep en query limit []
                    (emit (ConsoleError ''Vector search failed, falling back to text search:'') w1))
           else textSearchStep en query limit [] w))"

text \<open>\<^verbatim>\<open>String(n)\<close> for a non-negative integer, as a template literal renders it.\<close>

definition digit :: "nat \<Rightarrow> char" where
  "digit d = ''0123456789'' ! d"

fun string_of_nat :: "nat \<Rightarrow> string" where
  "string_of_nat n =
     (if n < 10 then [digit n] else string_of_nat (n div 10) @ [digit (n mod 10)])"

declare string_of_nat.simps [simp del]

text \<open>\<^verbatim>\<open>Array.prototype.join\<close> on strings.\<close>

fun join :: "string \<Rightarrow> string list \<Rightarrow> string" where
  "join sep [] = []"
| "join sep [x] = x"
| "join sep (x # y # ys) = x @ sep @ join sep (y # ys)"

text \<open>\<^verbatim>\<open>String.prototype.trim\<close>: the white space and line terminator code units below 256.\<close>

definition isWhiteSpace :: "char \<Rightarrow> bool" where
  "isWhiteSpace c =
     (c = CHR 0x09 \<or> c = CHR 0x0A \<or> c = CHR 0x0B \<or> c = CHR 0x0C \<or> c = CHR 0x0D
      \<or> c = CHR 0x20 \<or> c = CHR 0xA0)"

definition trim :: "string \<Rightarrow> string" where
  "trim s = rev (dropWhile isWhiteSpace (rev (dropWhile isWhiteSpace s)))"

definition newline :: string where
  "newline = [CHR 0x0A]"

text \<open>The product name in the system line of the prompt: the source writes two Ethiopic
  letters (U+12D8, U+1265), given here by their UTF-8 bytes.\<close>

definition ZEB :: string where
  "ZEB = [CHR 0xE1, CHR 0x8B, CHR 0x98, CHR 0xE1, CHR 0x89, CHR 0xA5]"

text \<open>The relevance note of one context document:
  \<^verbatim>\<open>doc.similarity ? ` (Relevance: ${(doc.similarity * 100).toFixed(1)}%)` : ''\<close>.
  A similarity of 0 is falsy, like an absent one.\<close>

definition relevanceInfo :: "env \<Rightarrow> retrieved \<Rightarrow> string" where
  "relevanceInfo en doc =
     (case similarity doc of
        None \<Rightarrow> []
      | Some s \<Rightarrow>
          (if s \<noteq> 0 then '' (Relevance: '' @ toFixed en (s * 100) 1 @ ''%)'' else []))"

text \<open>The callback of \<^verbatim>\<open>context.map((doc, index) => ...)\<close>.\<close>

definition renderDoc :: "env \<Rightarrow> nat \<Rightarrow> retrieved \<Rightarrow> string" where
  "renderDoc en index doc =
     ''Document '' @ string_of_nat (index + 1) @ '': '' @ title doc @ relevanceInfo en doc
       @ newline @ ''Content: '' @ truncateText en (content doc) 1000"

definition contextText :: "env \<Rightarrow> retrieved list \<Rightarrow> string" where
  "contextText en context =
     (if length context > 0
      then join (newline @ newline)
             (map (\<lambda>(index, doc). renderDoc en index doc) (enumerate 0 context))
      else ''No specific documents found in the database.'')"

definition systemLine :: string where
  "systemLine = ''System: You are '' @ [CHR 0x22] @ ZEB @ '' AI'' @ [CHR 0x22]
     @ '' (Zeb AI), the smart campus safety assistant for ASTU. Answer concisely and professionally.''"

definition instructionsLine :: string where
  "instructionsLine = ''Instructions: Use the CONTEXT DOCUMENTS to answer the USER QUESTION. If you must use general knowledge, clearly state it'' @ [CHR 0x27] @ ''s general advice. If this is an active emergency, give emergency contacts and safety guidance. Do NOT fabricate ASTU-specific facts. Cite document titles when possible.''"

text \<open>The prompt of \<^verbatim>\<open>generateAnswer\<close>: four parts joined by blank lines.\<close>

definition buildPrompt :: "env \<Rightarrow> string \<Rightarrow> retrieved list \<Rightarrow> string" where
  "buildPrompt en question context =
     join (newline @ newline)
       [systemLine,
        instructionsLine,
        ''CONTEXT DOCUMENTS:'' @ newline @ contextText en context,
        ''USER QUESTION:'' @ newline @ question]"

definition generationFailed :: error where
  "generationFailed = Error ''Failed to generate response from AI service.''"

text \<open>\<^verbatim>\<open>RAGService.generateAnswer\<close>: every failure inside the \<^verbatim>\<open>try\<close> (the provider
  call, reading the text, the empty-response check) is logged and replaced by one fixed
  error, which is thrown to the caller.\<close>

definition generateAnswer ::
  "env \<Rightarrow> string \<Rightarrow> retrieved list \<Rightarrow> world \<Rightarrow> (error + string) \<times> world" where
  "generateAnswer en question context w =
     (let prompt = buildPrompt en question context;
          w1 = emit (GenerateContent prompt) w
      in case generateContent en prompt of
           Inl e \<Rightarrow> (Inl generationFailed, emit (ConsoleError ''Error generating AI response:'') w1)
         | Inr txt \<Rightarrow>
             (if txt = [] \<or> length (trim txt) = 0
              then (Inl generationFailed, emit (ConsoleError ''Error generating AI response:'') w1)
              else (Inr (trim txt), w1)))"

text \<open>\<^verbatim>\<open>RAGService.processQuestion\<close>; \<^verbatim>\<open>searchDocuments\<close> is called with its default
  \<^verbatim>\<open>limit = 3\<close>.\<close>

definition processQuestion ::
  "env \<Rightarrow> string \<Rightarrow> world \<Rightarrow> (error + string \<times> retrieved list) \<times> world" where
  "processQuestion en question w =
     (case generateEmbedding en question w of
        (emb, w1) \<Rightarrow>
          (case searchDocuments en question emb 3 w1 of
             (relevantDocs, w2) \<Rightarrow>
               (case generateAnswer en question relevantDocs w2 of
                  (Inl e, w3) \<Rightarrow> (Inl e, w3)
                | (Inr answer, w3) \<Rightarrow> (Inr (answer, relevantDocs), w3))))"

section \<open>The Mongo collections\<close>

text \<open>Every database operation first consumes its scheduled outcome.\<close>

definition db_op :: "world \<Rightarrow> error option \<times> world" where
  "db_op w = (case faults w of [] \<Rightarrow> (None, w) | f # fs \<Rightarrow> (f, w\<lparr>faults := fs\<rparr>))"

text \<open>\<^verbatim>\<open>Conversation.findOne({ _id: cid, user: uid })\<close>.\<close>

definition Conversation_findOne ::
  "nat \<Rightarrow> nat \<Rightarrow> world \<Rightarrow> (error + conversation option) \<times> world" where
  "Conversation_findOne cid uid w =
     (case db_op w of
        (Some e, w1) \<Rightarrow> (Inl e, w1)
      | (None, w1) \<Rightarrow>
          (Inr (find (\<lambda>c. conv_id c = cid \<and> conv_user c = uid) (conversations w1)), w1))"

text \<open>\<^verbatim>\<open>conversation.save()\<close>: the stored conversation with this id is replaced.\<close>

definition Conversation_save :: "conversation \<Rightarrow> world \<Rightarrow> (error + unit) \<times> world" where
  "Conversation_save c w =
     (case db_op w of
        (Some e, w1) \<Rightarrow> (Inl e, w1)
      | (None, w1) \<Rightarrow>
          (Inr (),
           w1\<lparr>conversations :=
                 map (\<lambda>c'. if conv_id c' = conv_id c then c else c') (conversations w1)\<rparr>))"

text \<open>\<^verbatim>\<open>Conversation.create({ user, title, lastMessage })\<close>: the new conversation gets a
  fresh id.\<close>

definition Conversation_create ::
  "nat \<Rightarrow> string \<Rightarrow> string \<Rightarrow> world \<Rightarrow> (error + conversation) \<times> world" where
  "Conversation_create uid ttl lastMsg w =
     (case db_op w of
        (Some e, w1) \<Rightarrow> (Inl e, w1)
      | (None, w1) \<Rightarrow>
          (let c = \<lparr>conv_id = nextId w1, conv_user = uid, conv_title = ttl,
                     lastMessage = lastMsg\<rparr>
           in (Inr c, w1\<lparr>conversations := conversations w1 @ [c], nextId := Suc (nextId w1)\<rparr>)))"

text \<open>\<^verbatim>\<open>Chat.create({ user, conversation, role, text })\<close>.\<close>

definition Chat_create :: "chat \<Rightarrow> world \<Rightarrow> (error + unit) \<times> world" where
  "Chat_create m w =
     (case db_op w of
        (Some e, w1) \<Rightarrow> (Inl e, w1)
      | (None, w1) \<Rightarrow> (Inr (), w1\<lparr>chats := chats w1 @ [m]\<rparr>))"

text \<open>\<^verbatim>\<open>DocumentModel.create(doc)\<close>: the stored document gets a fresh \<^verbatim>\<open>_id\<close>, whatever
  \<open>doc_id\<close> the argument carries.\<close>

definition DocumentModel_create :: "document \<Rightarrow> world \<Rightarrow> (error + document) \<times> world" where
  "DocumentModel_create d w =
     (case db_op w of
        (Some e, w1) \<Rightarrow> (Inl e, w1)
      | (None, w1) \<Rightarrow>
          (let d' = d\<lparr>doc_id := nextId w1\<rparr>
           in (Inr d', w1\<lparr>documents := documents w1 @ [d'], nextId := Suc (nextId w1)\<rparr>)))"

text \<open>\<^verbatim>\<open>DocumentModel.findById(id)\<close>.\<close>

definition DocumentModel_findById :: "nat \<Rightarrow> world \<Rightarrow> (error + document option) \<times> world" where
  "DocumentModel_findById i w =
     (case db_op w of
        (Some e, w1) \<Rightarrow> (Inl e, w1)
      | (None, w1) \<Rightarrow> (Inr (find (\<lambda>d. doc_id d = i) (documents w1)), w1))"

text \<open>\<^verbatim>\<open>DocumentModel.deleteMany({ parentDocumentId: id })\<close>.\<close>

definition DocumentModel_deleteMany_parent :: "nat \<Rightarrow> world \<Rightarrow> (error + unit) \<times> world" where
  "DocumentModel_deleteMany_parent i w =
     (case db_op w of
        (Some e, w1) \<Rightarrow> (Inl e, w1)
      | (None, w1) \<Rightarrow>
          (Inr (),
           w1\<lparr>documents := filter (\<lambda>d. parentDocumentId d \<noteq> Some i) (documents w1)\<rparr>))"

text \<open>\<^verbatim>\<open>document.deleteOne()\<close>.\<close>

definition document_deleteOne :: "document \<Rightarrow> world \<Rightarrow> (error + unit) \<times> world" where
  "document_deleteOne d w =
     (case db_op w of
        (Some e, w1) \<Rightarrow> (Inl e, w1)
      | (None, w1) \<Rightarrow>
          (Inr (), w1\<lparr>documents := filter (\<lambda>d'. doc_id d' \<noteq> doc_id d) (documents w1)\<rparr>))"

section \<open>controllers/chatController.ts (snapshot 20260214171145)\<close>

record user =
  user_id :: nat
  email :: string

text \<open>The request of \<^verbatim>\<open>POST /api/chat/ask\<close>: \<^verbatim>\<open>req.user\<close>, \<^verbatim>\<open>req.body.question\<close> and
  \<^verbatim>\<open>req.body.conversationId\<close>; \<open>None\<close> is a missing (falsy) value.\<close>

record ask_request =
  req_user :: "user option"
  req_question :: "string option"
  req_conversationId :: "nat option"

text \<open>One element of \<^verbatim>\<open>sources\<close> in the answer.\<close>

record source =
  src_id :: nat
  src_title :: string
  src_category :: string
  src_similarity :: "real option"
  src_isChunk :: bool
  src_chunkIndex :: "nat option"

text \<open>The value \<^verbatim>\<open>processAndSaveDocument\<close> returns (without \<^verbatim>\<open>createdAt\<close>).\<close>

record upload_result =
  res_id :: nat
  res_title :: string
  res_category :: string
  chunksCreated :: "nat option"

text \<open>The JSON bodies the handlers send: \<open>Failure message error\<close> is
  \<^verbatim>\<open>{ success: false, message, error }\<close>, \<open>AskSuccess question answer conversationId sources\<close>
  is the answer of the ask endpoint (without its \<^verbatim>\<open>timestamp\<close>), \<open>Success message\<close> is
  \<^verbatim>\<open>{ success: true, message }\<close>.\<close>

datatype body =
    Failure string "string option"
  | AskSuccess string string nat "source list"
  | Success string

record response =
  status :: nat
  json :: body

definition toSource :: "retrieved \<Rightarrow> source" where
  "toSource doc =
     \<lparr>src_id = doc_id doc, src_title = title doc, src_category = category doc,
      src_similarity = similarity doc, src_isChunk = isChunk doc,
      src_chunkIndex = chunkIndex doc\<rparr>"

text \<open>The title of a new conversation:
  \<^verbatim>\<open>question.length > 50 ? question.substring(0, 47) + '...' : question\<close>.\<close>

definition conversationTitle :: "string \<Rightarrow> string" where
  "conversationTitle question =
     (if length question > 50 then take 47 question @ ''...'' else question)"

text \<open>The block \<^verbatim>\<open>if (!conversation) { ... }\<close>: create a conversation and use its id.\<close>

definition createConversation ::
  "nat \<Rightarrow> string \<Rightarrow> string \<Rightarrow> world \<Rightarrow> (error + nat) \<times> world" where
  "createConversation uid question answer w =
     (case Conversation_create uid (conversationTitle question) (take 100 answer) w of
        (Inl e, w1) \<Rightarrow> (Inl e, w1)
      | (Inr c, w1) \<Rightarrow> (Inr (conv_id c), w1))"

text \<open>The section "Handle Conversation" of \<^verbatim>\<open>askQuestion\<close>, which is outside the inner
  \<^verbatim>\<open>try\<close>: an error of the conversation store leaves it as \<open>Inl\<close>. The result is the
  \<^verbatim>\<open>conversationId\<close> used from then on.\<close>

definition handleConversation ::
  "nat \<Rightarrow> string \<Rightarrow> string \<Rightarrow> nat option \<Rightarrow> world \<Rightarrow> (error + nat) \<times> world" where
  "handleConversation uid question answer reqConversationId w =
     (case reqConversationId of
        None \<Rightarrow> createConversation uid question answer w
      | Some cid \<Rightarrow>
          (case Conversation_findOne cid uid w of
             (Inl e, w1) \<Rightarrow> (Inl e, w1)
           | (Inr None, w1) \<Rightarrow> createConversation uid question answer w1
           | (Inr (Some c), w1) \<Rightarrow>
               (case Conversation_save (c\<lparr>lastMessage := take 100 answer\<rparr>) w1 of
                  (Inl e, w2) \<Rightarrow> (Inl e, w2)
                | (Inr u, w2) \<Rightarrow> (Inr cid, w2))))"

text \<open>The section "Save to Chat History": the two writes in their own \<^verbatim>\<open>try\<close>, whose
  \<^verbatim>\<open>catch\<close> only logs.\<close>

definition saveChatHistory :: "nat \<Rightarrow> nat \<Rightarrow> string \<Rightarrow> string \<Rightarrow> world \<Rightarrow> world" where
  "saveChatHistory uid cid question answer w =
     (case Chat_create \<lparr>chat_user = uid, chat_conversation = cid, chat_role = RoleUser,
                        chat_text = question\<rparr> w of
        (Inl e, w1) \<Rightarrow> emit (ConsoleError ''Error saving chat history:'') w1
      | (Inr u, w1) \<Rightarrow>
          (case Chat_create \<lparr>chat_user = uid, chat_conversation = cid, chat_role = RoleModel,
                             chat_text = answer\<rparr> w1 of
             (Inl e, w2) \<Rightarrow> emit (ConsoleError ''Error saving chat history:'') w2
           | (Inr u', w2) \<Rightarrow> w2))"

text \<open>The outer \<^verbatim>\<open>catch\<close> of \<^verbatim>\<open>askQuestion\<close>.\<close>

definition chatError :: "error \<Rightarrow> world \<Rightarrow> response \<times> world" where
  "chatError e w =
     (\<lparr>status = 500, json = Failure ''Error processing your question'' (Some (message e))\<rparr>,
      emit (ConsoleError ''Chat error:'') w)"

text \<open>What follows the answer in \<^verbatim>\<open>askQuestion\<close>: conversation, chat history, response.\<close>

definition persistAndRespond ::
  "nat \<Rightarrow> string \<Rightarrow> string \<Rightarrow> retrieved list \<Rightarrow> nat option \<Rightarrow> world \<Rightarrow> response \<times> world" where
  "persistAndRespond uid question answer relevantDocs reqConversationId w =
     (case handleConversation uid question answer reqConversationId w of
        (Inl e, w1) \<Rightarrow> chatError e w1
      | (Inr conversationId, w1) \<Rightarrow>
          (\<lparr>status = 200,
            json = AskSuccess question answer conversationId (map toSource relevantDocs)\<rparr>,
           saveChatHistory uid conversationId question answer w1))"

text \<open>\<^verbatim>\<open>askQuestion\<close>. The only validation of the question is
  \<^verbatim>\<open>!question || question.trim().length === 0\<close>.\<close>

definition askQuestion :: "env \<Rightarrow> ask_request \<Rightarrow> world \<Rightarrow> response \<times> world" where
  "askQuestion en req w =
     (case req_user req of
        None \<Rightarrow> (\<lparr>status = 401, json = Failure ''Not authorized'' None\<rparr>, w)
      | Some u \<Rightarrow>
          (case req_question req of
             None \<Rightarrow> (\<lparr>status = 400, json = Failure ''Please provide a question'' None\<rparr>, w)
           | Some question \<Rightarrow>
               (if question = [] \<or> length (trim question) = 0
                then (\<lparr>status = 400, json = Failure ''Please provide a question'' None\<rparr>, w)
                else
                  (case processQuestion en question w of
                     (Inl e, w1) \<Rightarrow> chatError e w1
                   | (Inr (answer, relevantDocs), w1) \<Rightarrow>
                       persistAndRespond (user_id u) question answer relevantDocs
                         (req_conversationId req) w1))))"

text \<open>\<^verbatim>\<open>category || 'other'\<close> after the default parameter \<^verbatim>\<open>category = 'other'\<close>, and
  \<^verbatim>\<open>tags || []\<close> after \<^verbatim>\<open>tags = []\<close>.\<close>

definition categoryOrOther :: "string option \<Rightarrow> string" where
  "categoryOrOther c = (case c of None \<Rightarrow> ''other'' | Some s \<Rightarrow> (if s = [] then ''other'' else s))"

definition tagsOrEmpty :: "string list option \<Rightarrow> string list" where
  "tagsOrEmpty t = (case t of None \<Rightarrow> [] | Some ts \<Rightarrow> ts)"

text \<open>\<^verbatim>\<open>embedding || []\<close>.\<close>

definition embeddingOrEmpty :: "vector option \<Rightarrow> vector" where
  "embeddingOrEmpty e = (case e of None \<Rightarrow> [] | Some v \<Rightarrow> v)"

text \<open>The object handed to \<^verbatim>\<open>DocumentModel.create\<close> for the chunk at position \<open>index\<close> of
  \<open>count\<close> chunks.\<close>

definition chunkDocument ::
  "string \<Rightarrow> string \<Rightarrow> string list \<Rightarrow> nat \<Rightarrow> nat \<Rightarrow> nat \<Rightarrow> nat \<Rightarrow> chunk \<Rightarrow> vector \<Rightarrow> document" where
  "chunkDocument ttl cat tgs userId parentId count index c emb =
     \<lparr>doc_id = 0,
      title = ttl @ '' (Chunk '' @ string_of_nat (index + 1) @ ''/'' @ string_of_nat count @ '')'',
      content = chunk_text c,
      category = cat,
      tags = tgs,
      embedding = emb,
      uploadedBy = userId,
      isPublic = True,
      isChunk = True,
      parentDocumentId = Some parentId,
      chunkIndex = Some (chunk_index c),
      chunkCount = Some count\<rparr>"

text \<open>
  The two halves of \<^verbatim>\<open>generateEmbedding\<close>, before and after its \<^verbatim>\<open>await\<close>: sending the
  request, and handling the answer to the request that was sent when \<open>k\<close> events had been
  traced. Without an API key nothing is sent and the result is \<^verbatim>\<open>null\<close>.
\<close>

definition embeddingRequest :: "env \<Rightarrow> string \<Rightarrow> world \<Rightarrow> world" where
  "embeddingRequest en txt w =
     (if voyageApiKey en = [] then w else emit (EmbeddingRequest txt) w)"

definition embeddingResponse :: "env \<Rightarrow> nat \<Rightarrow> string \<Rightarrow> world \<Rightarrow> vector option \<times> world" where
  "embeddingResponse en k txt w =
     (if voyageApiKey en = [] then (None, w)
      else
        (case axios_post en k txt of
           Inl e \<Rightarrow> (None, emit (ConsoleError ''Error generating embedding:'') w)
         | Inr response \<Rightarrow>
             (case first_embedding response of
                Some emb \<Rightarrow> (Some emb, w)
              | None \<Rightarrow> (None, w))))"

text \<open>
  \<^verbatim>\<open>chunks.map(async (chunk, index) => ...)\<close> calls the callback for every chunk in turn, and
  each call runs up to its first \<^verbatim>\<open>await\<close>: all embedding requests are sent, in the order
  of the chunks, before any answer is handled.
\<close>

fun sendEmbeddingRequests :: "env \<Rightarrow> chunk list \<Rightarrow> world \<Rightarrow> world" where
  "sendEmbeddingRequests en [] w = w"
| "sendEmbeddingRequests en (c # cs) w =
     sendEmbeddingRequests en cs (embeddingRequest en (chunk_text c) w)"

text \<open>
  The order in which the callbacks resume: by the time their answers take to arrive, and in
  the order of the chunks for answers that arrive together (or when, without an API key, no
  request is made); \<open>k0\<close> is the number of events traced before the first request.
\<close>

definition arrivalOrder :: "env \<Rightarrow> nat \<Rightarrow> chunk list \<Rightarrow> (nat \<times> chunk) list" where
  "arrivalOrder en k0 chunks =
     (if voyageApiKey en = [] then enumerate 0 chunks
      else sort_key (\<lambda>(index, c). latency en (k0 + index) (chunk_text c))
             (enumerate 0 chunks))"

text \<open>
  The rest of each callback, run in the order of arrival: the answer is handled and the chunk
  document is written (the writes take effect in the order in which they are issued). A chunk
  whose \<^verbatim>\<open>create\<close> throws does not stop the other callbacks; the first error in time is what
  \<^verbatim>\<open>Promise.all\<close> rejects with.
\<close>

fun writeChunks ::
  "env \<Rightarrow> string \<Rightarrow> string \<Rightarrow> string list \<Rightarrow> nat \<Rightarrow> nat \<Rightarrow> nat \<Rightarrow> nat \<Rightarrow> (nat \<times> chunk) list
     \<Rightarrow> world \<Rightarrow> error option \<times> world" where
  "writeChunks en ttl cat tgs userId parentId count k0 [] w = (None, w)"
| "writeChunks en ttl cat tgs userId parentId count k0 ((index, c) # rest) w =
     (case embeddingResponse en (k0 + index) (chunk_text c) w of
        (emb, w1) \<Rightarrow>
          (case DocumentModel_create
                  (chunkDocument ttl cat tgs userId parentId count index c (embeddingOrEmpty emb))
                  w1 of
             (r, w2) \<Rightarrow>
               (case writeChunks en ttl cat tgs userId parentId count k0 rest w2 of
                  (err, w3) \<Rightarrow>
                    ((case r of Inl e \<Rightarrow> Some e | Inr d \<Rightarrow> err), w3))))"

text \<open>\<^verbatim>\<open>chunks.map(async (chunk, index) => ...)\<close> followed by \<^verbatim>\<open>await Promise.all\<close>.\<close>

definition createChunks ::
  "env \<Rightarrow> string \<Rightarrow> string \<Rightarrow> string list \<Rightarrow> nat \<Rightarrow> nat \<Rightarrow> nat \<Rightarrow> chunk list \<Rightarrow> world
     \<Rightarrow> error option \<times> world" where
  "createChunks en ttl cat tgs userId parentId count chunks w =
     writeChunks en ttl cat tgs userId parentId count (length (trace w))
       (arrivalOrder en (length (trace w)) chunks)
       (sendEmbeddingRequests en chunks w)"

text \<open>\<^verbatim>\<open>processAndSaveDocument\<close>.\<close>

definition processAndSaveDocument ::
  "env \<Rightarrow> string \<Rightarrow> string \<Rightarrow> nat \<Rightarrow> string option \<Rightarrow> string list option \<Rightarrow> world
     \<Rightarrow> (error + upload_result) \<times> world" where
  "processAndSaveDocument en ttl cont userId cat tgs w =
     (let cleanedContent = cleanText en cont;
          needsChunking = length cleanedContent > 2000
      in
        if needsChunking then
          (let chunks = chunkText en cleanedContent 1000 200 in
           case DocumentModel_create
                  \<lparr>doc_id = 0, title = ttl, content = cleanedContent,
                   category = categoryOrOther cat, tags = tagsOrEmpty tgs, embedding = [],
                   uploadedBy = userId, isPublic = True, isChunk = False,
                   parentDocumentId = None, chunkIndex = None,
                   chunkCount = Some (length chunks)\<rparr> w of
             (Inl e, w1) \<Rightarrow> (Inl e, w1)
           | (Inr parentDoc, w1) \<Rightarrow>
               (case createChunks en ttl (categoryOrOther cat) (tagsOrEmpty tgs) userId
                       (doc_id parentDoc) (length chunks) chunks w1 of
                  (Some e, w2) \<Rightarrow> (Inl e, w2)
                | (None, w2) \<Rightarrow>
                    (Inr \<lparr>res_id = doc_id parentDoc, res_title = title parentDoc,
                          res_category = category parentDoc,
                          chunksCreated = Some (length chunks)\<rparr>, w2)))
        else
          (case generateEmbedding en cleanedContent w of
             (emb, w1) \<Rightarrow>
               (case DocumentModel_create
                       \<lparr>doc_id = 0, title = ttl, content = cleanedContent,
                        category = categoryOrOther cat, tags = tagsOrEmpty tgs,
                        embedding = embeddingOrEmpty emb,
                        uploadedBy = userId, isPublic = True, isChunk = False,
                        parentDocumentId = None, chunkIndex = None, chunkCount = None\<rparr> w1 of
                  (Inl e, w2) \<Rightarrow> (Inl e, w2)
                | (Inr doc, w2) \<Rightarrow>
                    (Inr \<lparr>res_id = doc_id doc, res_title = title doc,
                          res_category = category doc, chunksCreated = None\<rparr>, w2))))"

text \<open>The request of \<^verbatim>\<open>DELETE /api/chat/documents/:id\<close>.\<close>

record delete_request =
  del_user :: "user option"
  del_id :: nat

text \<open>The \<^verbatim>\<open>catch\<close> of \<^verbatim>\<open>deleteDocument\<close>.\<close>

definition deleteError :: "error \<Rightarrow> world \<Rightarrow> response \<times> world" where
  "deleteError e w =
     (\<lparr>status = 500, json = Failure ''Error deleting document'' (Some (message e))\<rparr>,
      emit (ConsoleError ''Delete document error:'') w)"

text \<open>The guard \<^verbatim>\<open>!document.isChunk && document.chunkCount && document.chunkCount > 0\<close>.\<close>

definition hasChunks :: "document \<Rightarrow> bool" where
  "hasChunks d = (\<not> isChunk d \<and> (case chunkCount d of None \<Rightarrow> False | Some n \<Rightarrow> n > 0))"

text \<open>\<^verbatim>\<open>deleteDocument\<close>.\<close>

definition deleteDocument :: "delete_request \<Rightarrow> world \<Rightarrow> response \<times> world" where
  "deleteDocument req w =
     (case del_user req of
        None \<Rightarrow> (\<lparr>status = 401, json = Failure ''Not authorized'' None\<rparr>, w)
      | Some u \<Rightarrow>
          (case DocumentModel_findById (del_id req) w of
             (Inl e, w1) \<Rightarrow> deleteError e w1
           | (Inr None, w1) \<Rightarrow> (\<lparr>status = 404, json = Failure ''Document not found'' None\<rparr>, w1)
           | (Inr (Some d), w1) \<Rightarrow>
               (case (if hasChunks d then DocumentModel_deleteMany_parent (del_id req) w1
                      else (Inr (), w1)) of
                  (Inl e, w2) \<Rightarrow> deleteError e w2
                | (Inr u', w2) \<Rightarrow>
                    (case document_deleteOne d w2 of
                       (Inl e, w3) \<Rightarrow> deleteError e w3
                     | (Inr u'', w3) \<Rightarrow>
                         (\<lparr>status = 200, json = Success ''Document deleted successfully''\<rparr>,
                          w3)))))"

text \<open>\<^verbatim>\<open>DocumentModel.find({ parentDocumentId: id })\<close>, the chunks of a parent.\<close>

definition chunksOf :: "nat \<Rightarrow> world \<Rightarrow> document list" where
  "chunksOf i w = filter (\<lambda>d. parentDocumentId d = Some i) (documents w)"

section \<open>controllers/chatController.ts (snapshot 20260214100540)\<close>

text \<open>The earlier \<^verbatim>\<open>generateEmbedding\<close>: no check of the API key; a response without a first
  item throws, and so does reading \<^verbatim>\<open>.length\<close> of a missing embedding; the \<^verbatim>\<open>catch\<close> logs
  and returns \<^verbatim>\<open>null\<close>. (The second log line, printed for HTTP errors only, is left out.)\<close>

definition generateEmbedding_100540 :: "env \<Rightarrow> string \<Rightarrow> world \<Rightarrow> vector option \<times> world" where
  "generateEmbedding_100540 en txt w =
     (let w1 = emit (EmbeddingRequest txt) w in
      case axios_post en (length (trace w)) txt of
        Inl e \<Rightarrow> (None, emit (ConsoleError ''Error generating embedding:'') w1)
      | Inr response \<Rightarrow>
          (case first_embedding response of
             Some emb \<Rightarrow> (Some emb, w1)
           | None \<Rightarrow> (None, emit (ConsoleError ''Error generating embedding:'') w1)))"

text \<open>\<^verbatim>\<open>findRelevantDocumentsByEmbedding\<close>: the logging loop calls
  \<^verbatim>\<open>doc.similarity.toFixed(3)\<close> inside the \<^verbatim>\<open>try\<close>, so a result without a similarity
  throws and the \<^verbatim>\<open>catch\<close> returns the empty list.\<close>

definition findRelevantDocumentsByEmbedding ::
  "env \<Rightarrow> vector \<Rightarrow> nat \<Rightarrow> world \<Rightarrow> retrieved list \<times> world" where
  "findRelevantDocumentsByEmbedding en queryEmbedding limit w =
     (let w1 = emit (VectorSearchQuery queryEmbedding limit) w in
      case vectorSearch en (documents w) queryEmbedding limit of
        Inl e \<Rightarrow> ([], emit (ConsoleError ''Error in findRelevantDocumentsByEmbedding:'') w1)
      | Inr results \<Rightarrow>
          (if list_all (\<lambda>doc. similarity doc \<noteq> None) results then (results, w1)
           else ([], emit (ConsoleError ''Error in findRelevantDocumentsByEmbedding:'') w1)))"

text \<open>\<^verbatim>\<open>findRelevantDocuments\<close>, the text search.\<close>

definition findRelevantDocuments :: "env \<Rightarrow> string \<Rightarrow> nat \<Rightarrow> world \<Rightarrow> retrieved list \<times> world" where
  "findRelevantDocuments en query limit w =
     (let w1 = emit (TextSearchQuery query limit) w in
      case findSimilar en (documents w) query limit of
        Inl e \<Rightarrow> ([], emit (ConsoleError ''Error finding relevant documents:'') w1)
      | Inr ds \<Rightarrow> (if length ds > 0 then (map unscored ds, w1) else ([], w1)))"

text \<open>The entry of one context document in the earlier prompt.\<close>

definition contextEntry_100540 :: "env \<Rightarrow> nat \<Rightarrow> retrieved \<Rightarrow> string" where
  "contextEntry_100540 en index doc =
     newline @ string_of_nat (index + 1) @ ''. '' @ title doc @ relevanceInfo en doc
       @ newline @ truncateText en (content doc) 500 @ newline"

definition contextText_100540 :: "env \<Rightarrow> retrieved list \<Rightarrow> string" where
  "contextText_100540 en context =
     (if length context > 0
      then newline @ newline @ ''Relevant Information from Campus Safety Documents:'' @ newline
             @ concat (map (\<lambda>(index, doc). contextEntry_100540 en index doc)
                         (enumerate 0 context))
      else [])"

text \<open>The texts of the two prompt parts, one after the other (the fixed system instruction and
  generation parameters of the request are left out).\<close>

definition promptParts_100540 :: "env \<Rightarrow> string \<Rightarrow> retrieved list \<Rightarrow> string" where
  "promptParts_100540 en question context =
     (let ct = contextText_100540 en context in
      (if ct \<noteq> [] then newline @ newline @ ''CONTEXT:'' @ newline @ ct else [])
        @ newline @ newline @ ''STUDENT QUESTION: '' @ question)"

definition debugAnswer :: "string \<Rightarrow> string" where
  "debugAnswer msg =
     ''(DEBUG MODE) Error generating response: '' @ msg
       @ ''. Please check backend logs for details.''"

text \<open>\<^verbatim>\<open>generateAIResponse\<close>: never throws; on any error it logs two lines and returns a
  text that quotes the error message.\<close>

definition generateAIResponse :: "env \<Rightarrow> string \<Rightarrow> retrieved list \<Rightarrow> world \<Rightarrow> string \<times> world" where
  "generateAIResponse en question context w =
     (let failed = (\<lambda>e w'. (debugAnswer (message e),
                             emit (ConsoleError ''   Message:'')
                               (emit (ConsoleError ''ERROR in generateAIResponse:'') w')))
      in
        if (case GEMINI_API_KEY en of None \<Rightarrow> True | Some k \<Rightarrow> k = [])
        then failed (Error ''GEMINI_API_KEY is missing from environment variables'') w
        else
          (let prompt = promptParts_100540 en question context;
               w1 = emit (GenerateContent prompt) w
           in case generateContent en prompt of
                Inl e \<Rightarrow> failed e w1
              | Inr txt \<Rightarrow> (txt, w1)))"

text \<open>The earlier \<^verbatim>\<open>askQuestion\<close>: it also rejects a question of more than 1000 code units,
  and it searches by text only when no embedding is available.\<close>

definition askQuestion_100540 :: "env \<Rightarrow> ask_request \<Rightarrow> world \<Rightarrow> response \<times> world" where
  "askQuestion_100540 en req w =
     (case req_user req of
        None \<Rightarrow> (\<lparr>status = 401, json = Failure ''Not authorized'' None\<rparr>, w)
      | Some u \<Rightarrow>
          (case req_question req of
             None \<Rightarrow> (\<lparr>status = 400, json = Failure ''Please provide a question'' None\<rparr>, w)
           | Some question \<Rightarrow>
               (if question = [] \<or> length (trim question) = 0
                then (\<lparr>status = 400, json = Failure ''Please provide a question'' None\<rparr>, w)
                else if length question > 1000
                then (\<lparr>status = 400,
                       json = Failure ''Question is too long (max 1000 characters)'' None\<rparr>, w)
                else
                  (case generateEmbedding_100540 en question w of
                     (queryEmbedding, w1) \<Rightarrow>
                       (case (case queryEmbedding of
                                None \<Rightarrow> findRelevantDocuments en question 3 w1
                              | Some v \<Rightarrow>
                                  (if length v > 0
                                   then findRelevantDocumentsByEmbedding en v 3 w1
                                   else findRelevantDocuments en question 3 w1)) of
                          (relevantDocs, w2) \<Rightarrow>
                            (case generateAIResponse en question relevantDocs w2 of
                               (aiResponse, w3) \<Rightarrow>
                                 persistAndRespond (user_id u) question aiResponse relevantDocs
                                   (req_conversationId req) w3))))))"

section \<open>Scenarios\<close>

text \<open>Concrete collaborators and stores on which the theorems below are exercised.\<close>

definition doc_fire :: document where
  "doc_fire = \<lparr>doc_id = 1, title = ''Fire Safety'', content = ''Leave by the nearest exit.'',
     category = ''health'', tags = [], embedding = [], uploadedBy = 0, isPublic = True,
     isChunk = False, parentDocumentId = None, chunkIndex = None, chunkCount = None\<rparr>"


text \<open>Both providers answer, the embedding has three components, the vector index is not
  available, the text search returns the first stored documents, the chunker cuts a text
  in two overlapping pieces, and all embedding answers arrive together.\<close>

definition env_ok :: env where
  "env_ok = \<lparr>GEMINI_API_KEY = Some ''g-key'', VOYAGE_API_KEY = Some ''v-key'',
     axios_post = (\<lambda>n t. Inr (AxiosResponse (Some (VoyageEmbeddingResponse
                     (Some [VoyageItem (Some [1, 2, 3])]))))),
     latency = (\<lambda>k t. 0),
     generateContent = (\<lambda>p. Inr ''Call campus security.''),
     vectorSearch = (\<lambda>ds v n. Inl (Error ''index not ready'')),
     findSimilar = (\<lambda>ds q n. Inr (take n ds)),
     truncateText = (\<lambda>s n. take n s),
     chunkText = (\<lambda>s t ov. [\<lparr>chunk_text = take t s, chunk_index = 0\<rparr>,
                              \<lparr>chunk_text = drop (t - ov) s, chunk_index = 1\<rparr>]),
     cleanText = (\<lambda>s. s),
     toFixed = (\<lambda>x n. ''87.0'')\<rparr>"

text \<open>As \<open>env_ok\<close>, with an embedding provider that times out on every request.\<close>

definition env_embed_down :: env where
  "env_embed_down = env_ok\<lparr>axios_post := (\<lambda>n t. Inl (Error ''timeout of 10000ms exceeded''))\<rparr>"


text \<open>As \<open>env_ok\<close>, with an embedding provider that rejects the first request it gets and
  whose later answers arrive sooner than earlier ones.\<close>

definition env_racing :: env where
  "env_racing =
     env_ok\<lparr>axios_post := (\<lambda>k t. if k = 0 then Inl (Error ''429 Too Many Requests'')
                                  else Inr (AxiosResponse (Some (VoyageEmbeddingResponse
                                         (Some [VoyageItem (Some [1, 2, 3])]))))),
            latency := (\<lambda>k t. 10 - k)\<rparr>"

text \<open>As \<open>env_ok\<close>, with a generative provider that rejects every request.\<close>

definition env_gen_down :: env where
  "env_gen_down = env_ok\<lparr>generateContent := (\<lambda>p. Inl (Error ''429 Resource has been exhausted''))\<rparr>"

text \<open>As \<open>env_ok\<close>, with a generative provider that answers the empty prompt only.\<close>

definition env_gen_picky :: env where
  "env_gen_picky =
     env_ok\<lparr>generateContent := (\<lambda>p. if p = [] then Inr ''pong''
                                      else Inl (Error ''429 Resource has been exhausted''))\<rparr>"

definition w_empty :: world where
  "w_empty = \<lparr>documents = [], conversations = [], chats = [], nextId = 0, faults = [],
     trace = []\<rparr>"

text \<open>Stores whose next database operation, or next but one, throws.\<close>

definition w_db_down :: world where
  "w_db_down = w_empty\<lparr>faults := [Some (Error ''MongoNetworkError'')]\<rparr>"

definition w_chat_down :: world where
  "w_chat_down = w_empty\<lparr>faults := [None, Some (Error ''MongoNetworkError'')]\<rparr>"

text \<open>A text of 2001 code units, just above the chunking threshold.\<close>

definition long_text :: string where
  "long_text = replicate 2001 (CHR ''x'')"

definition student :: user where
  "student = \<lparr>user_id = 7, email = ''student@astu.edu.et''\<rparr>"

text \<open>A first question, without a conversation id.\<close>

definition req_exit :: ask_request where
  "req_exit = \<lparr>req_user = Some student, req_question = Some ''Where is the exit?'',
     req_conversationId = None\<rparr>"

text \<open>A question of 1001 code units.\<close>

definition req_long :: ask_request where
  "req_long = \<lparr>req_user = Some student, req_question = Some (replicate 1001 (CHR ''a'')),
     req_conversationId = None\<rparr>"

definition req_blank :: ask_request where
  "req_blank = \<lparr>req_user = Some student, req_question = Some ''   '',
     req_conversationId = None\<rparr>"

text \<open>A first question of 65 code units.\<close>

definition req_wordy :: ask_request where
  "req_wordy = \<lparr>req_user = Some student,
     req_question = Some ''Where is the nearest emergency exit of the main library building?'',
     req_conversationId = None\<rparr>"

text \<open>The store after the long text has been ingested, and the request to delete its parent
  document.\<close>

definition w_handbook :: world where
  "w_handbook = snd (processAndSaveDocument env_ok ''Handbook'' long_text 7 None None w_empty)"

definition req_delete_handbook :: delete_request where
  "req_delete_handbook = \<lparr>del_user = Some student, del_id = 0\<rparr>"

section \<open>Specification vocabulary\<close>

text \<open>
  The vector a provider answer carries in its first item, and the empty vector when it carries
  none; and the vector that ingestion is to store for a text whose embedding request is made
  when \<open>k\<close> events have been traced: the vector of the provider's answer to that request,
  empty when no API key is set or the request fails. Both are stated on the environment
  alone, without the functions of the code.
\<close>

fun answeredVector :: "AxiosResponse \<Rightarrow> vector" where
  "answeredVector (AxiosResponse (Some (VoyageEmbeddingResponse (Some (VoyageItem (Some v) # rest)))))
     = v"
| "answeredVector r = []"

definition storedEmbedding :: "env \<Rightarrow> nat \<Rightarrow> string \<Rightarrow> vector" where
  "storedEmbedding en k txt =
     (case VOYAGE_API_KEY en of
        None \<Rightarrow> []
      | Some key \<Rightarrow>
          (if key = [] then []
           else case axios_post en k txt of
                  Inl e \<Rightarrow> []
                | Inr r \<Rightarrow> answeredVector r))"

text \<open>The prompt that \<^verbatim>\<open>processQuestion\<close> sends to the generative provider for a question:
  the one built from the question and the documents retrieved for it.\<close>

definition promptSent :: "env \<Rightarrow> string \<Rightarrow> world \<Rightarrow> string" where
  "promptSent en question w =
     buildPrompt en question
       (fst (searchDocuments en question (fst (generateEmbedding en question w)) 3
               (snd (generateEmbedding en question w))))"

text \<open>
  The invariant of the document collection that ingestion establishes and deletion keeps:
  every stored id and every parent reference is older than the next fresh id, and a stored
  document that some record names as its parent passes the guard of \<^verbatim>\<open>deleteDocument\<close>
  (it is not a chunk and has a positive chunk count).
\<close>

definition store_ok :: "world \<Rightarrow> bool" where
  "store_ok w =
     (\<forall>c \<in> set (documents w).
        doc_id c < nextId w
        \<and> (case parentDocumentId c of
             None \<Rightarrow> True
           | Some p \<Rightarrow>
               p < nextId w \<and> (\<forall>d \<in> set (documents w). doc_id d = p \<longrightarrow> hasChunks d)))"

section \<open>Basic facts\<close>

lemma emit_fields [simp]:
  "documents (emit ev w) = documents w"
  "conversations (emit ev w) = conversations w"
  "chats (emit ev w) = chats w"
  "nextId (emit ev w) = nextId w"
  "faults (emit ev w) = faults w"
  "trace (emit ev w) = trace w @ [ev]"
  by (simp_all add: emit_def)

lemma similarity_unscored [simp]: "similarity (unscored d) = None"
  by (simp add: unscored_def document.defs retrieved.defs)

lemma fst_textSearchStep:
  "fst (textSearchStep en query limit rs w) =
     (case findSimilar en (documents w) query limit of Inr ds \<Rightarrow> map unscored ds | Inl e \<Rightarrow> rs)"
  by (simp add: textSearchStep_def Let_def split: sum.splits)

section \<open>Retrieval: strict fallback\<close>

text \<open>
  Claim C1. When no usable query vector exists (none, or an empty one), or the vector search
  returns no result or throws, \<^verbatim>\<open>searchDocuments\<close> returns exactly what the text search
  returns, every element without a similarity, and the empty list when the text search throws
  as well; it has no throwing branch. When the vector search returns a non-empty list, that
  list alone is returned. So the result always comes from one path only.
\<close>

theorem searchDocuments_strict_fallback:
  "((emb = None \<or> (\<exists>v. emb = Some v \<and> (v = [] \<or> vectorSearch en (documents w) v limit = Inr []
         \<or> (\<exists>e. vectorSearch en (documents w) v limit = Inl e))))
     \<longrightarrow> fst (searchDocuments en query emb limit w) =
           (case findSimilar en (documents w) query limit of
              Inr ds \<Rightarrow> map unscored ds | Inl e \<Rightarrow> [])
         \<and> (\<forall>r \<in> set (fst (searchDocuments en query emb limit w)). similarity r = None))
   \<and> (\<forall>v rs. emb = Some v \<and> v \<noteq> [] \<and> vectorSearch en (documents w) v limit = Inr rs \<and> rs \<noteq> []
        \<longrightarrow> fst (searchDocuments en query emb limit w) = rs)"
  by (auto simp: searchDocuments_def fst_textSearchStep Let_def split: sum.splits option.splits)

theorem searchDocuments_strict_fallback_witness:
  "vectorSearch env_ok (documents (w_empty\<lparr>documents := [doc_fire]\<rparr>)) [1, 2, 3] 3
     = Inl (Error ''index not ready'')
   \<and> fst (searchDocuments env_ok ''fire'' (Some [1, 2, 3]) 3 (w_empty\<lparr>documents := [doc_fire]\<rparr>))
     = [unscored doc_fire]
   \<and> fst (searchDocuments (env_ok\<lparr>findSimilar := (\<lambda>ds q n. Inl (Error ''no text index''))\<rparr>)
            ''fire'' (Some [1, 2, 3]) 3 w_empty) = []"
  using searchDocuments_strict_fallback
          [of "Some [1, 2, 3]" env_ok "w_empty\<lparr>documents := [doc_fire]\<rparr>" 3 "''fire''"]
        searchDocuments_strict_fallback
          [of "Some [1, 2, 3]" "env_ok\<lparr>findSimilar := (\<lambda>ds q n. Inl (Error ''no text index''))\<rparr>"
              w_empty 3 "''fire''"]
  by (simp add: env_ok_def w_empty_def)

section \<open>Ingestion\<close>

lemma db_op_result:
  "db_op w = (f, w') \<Longrightarrow>
     documents w' = documents w \<and> conversations w' = conversations w \<and> chats w' = chats w
     \<and> nextId w' = nextId w \<and> trace w' = trace w
     \<and> (faults w = [] \<longrightarrow> f = None \<and> faults w' = [])"
  by (auto simp: db_op_def split: list.splits)

lemma generateEmbedding_fields [simp]:
  "documents (snd (generateEmbedding en txt w)) = documents w"
  "conversations (snd (generateEmbedding en txt w)) = conversations w"
  "chats (snd (generateEmbedding en txt w)) = chats w"
  "nextId (snd (generateEmbedding en txt w)) = nextId w"
  "faults (snd (generateEmbedding en txt w)) = faults w"
  by (simp_all add: generateEmbedding_def Let_def split: sum.splits option.splits)


text \<open>\<^verbatim>\<open>generateEmbedding\<close> is its two halves, one after the other.\<close>

lemma generateEmbedding_split:
  "generateEmbedding en txt w
     = embeddingResponse en (length (trace w)) txt (embeddingRequest en txt w)"
  by (simp add: generateEmbedding_def embeddingResponse_def embeddingRequest_def Let_def
      split: sum.splits option.splits)

lemma answeredVector_first_embedding:
  "embeddingOrEmpty (first_embedding r) = answeredVector r"
  by (cases r rule: answeredVector.cases)
     (simp_all add: first_embedding_def embeddingOrEmpty_def)

lemma embeddingOrEmpty_embeddingResponse:
  "embeddingOrEmpty (fst (embeddingResponse en k txt w)) = storedEmbedding en k txt"
proof (cases "voyageApiKey en = []")
  case True
  then show ?thesis
    by (auto simp: embeddingResponse_def storedEmbedding_def voyageApiKey_def
        embeddingOrEmpty_def split: option.splits)
next
  case False
  then obtain key where key: "VOYAGE_API_KEY en = Some key" "key \<noteq> []"
    by (auto simp: voyageApiKey_def split: option.splits)
  show ?thesis
  proof (cases "axios_post en k txt")
    case (Inl e)
    with False key show ?thesis
      by (simp add: embeddingResponse_def storedEmbedding_def embeddingOrEmpty_def)
  next
    case (Inr r)
    with False key answeredVector_first_embedding [of r] show ?thesis
      by (auto simp: embeddingResponse_def storedEmbedding_def split: option.splits)
  qed
qed

lemma embeddingOrEmpty_generateEmbedding:
  "embeddingOrEmpty (fst (generateEmbedding en txt w)) = storedEmbedding en (length (trace w)) txt"
  by (simp add: generateEmbedding_split embeddingOrEmpty_embeddingResponse)

lemma embeddingResponse_fields [simp]:
  "documents (snd (embeddingResponse en k txt w)) = documents w"
  "conversations (snd (embeddingResponse en k txt w)) = conversations w"
  "chats (snd (embeddingResponse en k txt w)) = chats w"
  "nextId (snd (embeddingResponse en k txt w)) = nextId w"
  "faults (snd (embeddingResponse en k txt w)) = faults w"
  by (simp_all add: embeddingResponse_def split: sum.splits option.splits)

lemma embeddingResponse_trace: "prefix (trace w) (trace (snd (embeddingResponse en k txt w)))"
  by (simp add: embeddingResponse_def split: sum.splits option.splits)

text \<open>The requests are traced in the order of the chunks, and nothing else changes.\<close>

lemma sendEmbeddingRequests_fields [simp]:
  "documents (sendEmbeddingRequests en chunks w) = documents w"
  "conversations (sendEmbeddingRequests en chunks w) = conversations w"
  "chats (sendEmbeddingRequests en chunks w) = chats w"
  "nextId (sendEmbeddingRequests en chunks w) = nextId w"
  "faults (sendEmbeddingRequests en chunks w) = faults w"
  by (induction chunks arbitrary: w; simp add: embeddingRequest_def)+

lemma sendEmbeddingRequests_trace:
  "trace (sendEmbeddingRequests en chunks w)
     = trace w @ (if voyageApiKey en = [] then []
                  else map (\<lambda>c. EmbeddingRequest (chunk_text c)) chunks)"
  by (induction chunks arbitrary: w) (simp_all add: embeddingRequest_def)

text \<open>Every chunk is handled exactly once, whatever the order of arrival.\<close>

lemma arrivalOrder_permutes:
  "set (arrivalOrder en k0 chunks) = set (enumerate 0 chunks)"
  "distinct (arrivalOrder en k0 chunks)"
  by (simp_all add: arrivalOrder_def)

lemma DocumentModel_create_Inr:
  "DocumentModel_create d w = (Inr d', w') \<Longrightarrow>
     d' = d\<lparr>doc_id := nextId w\<rparr> \<and> documents w' = documents w @ [d']
     \<and> nextId w' = Suc (nextId w) \<and> conversations w' = conversations w
     \<and> chats w' = chats w \<and> trace w' = trace w"
  by (auto simp: DocumentModel_create_def Let_def dest!: db_op_result
      split: prod.splits option.splits)

lemma DocumentModel_create_Inl:
  "DocumentModel_create d w = (Inl e, w') \<Longrightarrow>
     documents w' = documents w \<and> nextId w' = nextId w \<and> conversations w' = conversations w
     \<and> chats w' = chats w \<and> trace w' = trace w"
  by (auto simp: DocumentModel_create_def Let_def dest!: db_op_result
      split: prod.splits option.splits)

text \<open>When every chunk is created, the store grows by one document per handled chunk, in the
  order of arrival, each built from its own chunk and the provider's answer to the request
  that was made for that chunk.\<close>

lemma writeChunks_success:
  "writeChunks en ttl cat tgs uid pid n k0 ics w = (None, w') \<Longrightarrow>
     prefix (trace w) (trace w')
     \<and> (\<exists>cs. documents w' = documents w @ cs
            \<and> list_all2 (\<lambda>ic d. \<exists>i. d = (chunkDocument ttl cat tgs uid pid n (fst ic) (snd ic)
                                   (storedEmbedding en (k0 + fst ic) (chunk_text (snd ic))))
                                 \<lparr>doc_id := i\<rparr>)
                 ics cs)"
proof (induction ics arbitrary: w w')
  case Nil
  then show ?case by simp
next
  case (Cons ic rest)
  obtain i c where ic: "ic = (i, c)" by (cases ic)
  obtain emb w1 where er: "embeddingResponse en (k0 + i) (chunk_text c) w = (emb, w1)"
    by (cases "embeddingResponse en (k0 + i) (chunk_text c) w")
  let ?new = "chunkDocument ttl cat tgs uid pid n i c (embeddingOrEmpty emb)"
  obtain r w2 where cr: "DocumentModel_create ?new w1 = (r, w2)"
    by (cases "DocumentModel_create ?new w1")
  obtain err w3 where rc: "writeChunks en ttl cat tgs uid pid n k0 rest w2 = (err, w3)"
    by (cases "writeChunks en ttl cat tgs uid pid n k0 rest w2")
  from Cons.prems ic er cr rc obtain d where r: "r = Inr d" and err: "err = None"
    and w3: "w3 = w'"
    by (cases r) auto
  from cr r have d: "d = ?new\<lparr>doc_id := nextId w1\<rparr>" and docs2: "documents w2 = documents w1 @ [d]"
    and t2: "trace w2 = trace w1"
    by (auto dest: DocumentModel_create_Inr)
  from er have w1: "documents w1 = documents w"
    and emb: "embeddingOrEmpty emb = storedEmbedding en (k0 + i) (chunk_text c)"
    and t1: "prefix (trace w) (trace w1)"
    using embeddingResponse_fields(1) [of en "k0 + i" "chunk_text c" w]
      embeddingOrEmpty_embeddingResponse [of en "k0 + i" "chunk_text c" w]
      embeddingResponse_trace [of w en "k0 + i" "chunk_text c"] by simp_all
  from Cons.IH [of w2 w'] rc err w3 obtain cs where
    t3: "prefix (trace w2) (trace w')" and
    cs: "documents w' = documents w2 @ cs"
        "list_all2 (\<lambda>ic d. \<exists>i. d = (chunkDocument ttl cat tgs uid pid n (fst ic) (snd ic)
                                   (storedEmbedding en (k0 + fst ic) (chunk_text (snd ic))))
                                 \<lparr>doc_id := i\<rparr>)
           rest cs"
    by auto
  have "\<exists>j. d = (chunkDocument ttl cat tgs uid pid n (fst ic) (snd ic)
                    (storedEmbedding en (k0 + fst ic) (chunk_text (snd ic))))\<lparr>doc_id := j\<rparr>"
    using d emb ic by auto
  moreover have "prefix (trace w) (trace w')"
    using t1 t2 t3 by simp
  ultimately show ?case
    using cs docs2 w1 by (intro conjI exI [of _ "d # cs"]) simp_all
qed

text \<open>The shape of the store after a successful ingestion, on either side of the threshold.\<close>

lemma processAndSaveDocument_chunked:
  assumes ok: "processAndSaveDocument en ttl cont userId cat tgs w = (Inr res, w')"
    and big: "length (cleanText en cont) > 2000"
  shows "\<exists>parent cs.
           documents w' = documents w @ parent # cs
         \<and> parent = \<lparr>doc_id = nextId w, title = ttl, content = cleanText en cont,
              category = categoryOrOther cat, tags = tagsOrEmpty tgs, embedding = [],
              uploadedBy = userId, isPublic = True, isChunk = False,
              parentDocumentId = None, chunkIndex = None,
              chunkCount = Some (length (chunkText en (cleanText en cont) 1000 200))\<rparr>
         \<and> list_all2
              (\<lambda>ic d. \<exists>i. d = (chunkDocument ttl (categoryOrOther cat) (tagsOrEmpty tgs) userId
                                 (nextId w) (length (chunkText en (cleanText en cont) 1000 200))
                                 (fst ic) (snd ic)
                                 (storedEmbedding en (length (trace w) + fst ic)
                                    (chunk_text (snd ic))))
                               \<lparr>doc_id := i\<rparr>)
              (arrivalOrder en (length (trace w)) (chunkText en (cleanText en cont) 1000 200))
              cs
         \<and> prefix (trace w @ (if voyageApiKey en = [] then []
                               else map (\<lambda>c. EmbeddingRequest (chunk_text c))
                                      (chunkText en (cleanText en cont) 1000 200)))
             (trace w')"
proof -
  let ?chunks = "chunkText en (cleanText en cont) 1000 200"
  let ?p = "\<lparr>doc_id = 0, title = ttl, content = cleanText en cont,
              category = categoryOrOther cat, tags = tagsOrEmpty tgs, embedding = [],
              uploadedBy = userId, isPublic = True, isChunk = False,
              parentDocumentId = None, chunkIndex = None,
              chunkCount = Some (length ?chunks)\<rparr>"
  obtain r w1 where cr: "DocumentModel_create ?p w = (r, w1)"
    by (cases "DocumentModel_create ?p w")
  with ok big obtain parent where r: "r = Inr parent"
    by (cases r) (auto simp: processAndSaveDocument_def Let_def)
  obtain err w2 where cc: "createChunks en ttl (categoryOrOther cat) (tagsOrEmpty tgs) userId
      (doc_id parent) (length ?chunks) ?chunks w1 = (err, w2)"
    by (cases "createChunks en ttl (categoryOrOther cat) (tagsOrEmpty tgs) userId
      (doc_id parent) (length ?chunks) ?chunks w1")
  with ok big cr r have err: "err = None" and w2: "w2 = w'"
    by (auto simp: processAndSaveDocument_def Let_def split: option.splits)
  from cr r have parent: "parent = ?p\<lparr>doc_id := nextId w\<rparr>"
    and docs1: "documents w1 = documents w @ [parent]" and t1: "trace w1 = trace w"
    by (auto dest: DocumentModel_create_Inr)
  let ?ws = "sendEmbeddingRequests en ?chunks w1"
  from cc err have wc: "writeChunks en ttl (categoryOrOther cat) (tagsOrEmpty tgs) userId
      (doc_id parent) (length ?chunks) (length (trace w1))
      (arrivalOrder en (length (trace w1)) ?chunks) ?ws = (None, w2)"
    by (simp add: createChunks_def)
  from writeChunks_success [OF wc] obtain cs where
    t2: "prefix (trace ?ws) (trace w2)" and
    cs: "documents w2 = documents ?ws @ cs"
        "list_all2 (\<lambda>ic d. \<exists>i. d = (chunkDocument ttl (categoryOrOther cat) (tagsOrEmpty tgs)
                                  userId (doc_id parent) (length ?chunks) (fst ic) (snd ic)
                                  (storedEmbedding en (length (trace w1) + fst ic)
                                     (chunk_text (snd ic))))\<lparr>doc_id := i\<rparr>)
           (arrivalOrder en (length (trace w1)) ?chunks) cs"
    by auto
  from cs(2) parent t1
  have "list_all2
          (\<lambda>ic d. \<exists>i. d = (chunkDocument ttl (categoryOrOther cat) (tagsOrEmpty tgs) userId
                             (nextId w) (length ?chunks) (fst ic) (snd ic)
                             (storedEmbedding en (length (trace w) + fst ic)
                                (chunk_text (snd ic))))
                           \<lparr>doc_id := i\<rparr>)
          (arrivalOrder en (length (trace w)) ?chunks) cs"
    by simp
  moreover from t2 t1
  have "prefix (trace w @ (if voyageApiKey en = [] then []
                           else map (\<lambda>c. EmbeddingRequest (chunk_text c)) ?chunks))
          (trace w')"
    by (simp add: sendEmbeddingRequests_trace w2)
  ultimately show ?thesis
    using parent docs1 cs(1) w2
    by (intro exI [of _ parent] exI [of _ cs]) simp
qed

lemma processAndSaveDocument_single:
  assumes ok: "processAndSaveDocument en ttl cont userId cat tgs w = (Inr res, w')"
    and small: "length (cleanText en cont) \<le> 2000"
  shows "documents w' = documents w @
           [\<lparr>doc_id = nextId w, title = ttl, content = cleanText en cont,
             category = categoryOrOther cat, tags = tagsOrEmpty tgs,
             embedding = storedEmbedding en (length (trace w)) (cleanText en cont),
             uploadedBy = userId, isPublic = True, isChunk = False,
             parentDocumentId = None, chunkIndex = None, chunkCount = None\<rparr>]"
    and "trace w' = trace (snd (generateEmbedding en (cleanText en cont) w))"
proof -
  let ?t = "cleanText en cont"
  obtain emb w1 where ge: "generateEmbedding en ?t w = (emb, w1)"
    by (cases "generateEmbedding en ?t w")
  let ?d = "\<lparr>doc_id = 0, title = ttl, content = ?t,
              category = categoryOrOther cat, tags = tagsOrEmpty tgs,
              embedding = embeddingOrEmpty emb,
              uploadedBy = userId, isPublic = True, isChunk = False,
              parentDocumentId = None, chunkIndex = None, chunkCount = None\<rparr>"
  obtain r w2 where cr: "DocumentModel_create ?d w1 = (r, w2)"
    by (cases "DocumentModel_create ?d w1")
  with ok small ge obtain d where r: "r = Inr d" and w2: "w2 = w'"
    by (cases r) (auto simp: processAndSaveDocument_def Let_def)
  from cr r have d: "d = ?d\<lparr>doc_id := nextId w1\<rparr>" "documents w2 = documents w1 @ [d]"
    "trace w2 = trace w1"
    by (auto dest: DocumentModel_create_Inr)
  from ge have "documents w1 = documents w" "nextId w1 = nextId w"
    "embeddingOrEmpty emb = storedEmbedding en (length (trace w)) ?t"
    using generateEmbedding_fields(1,4) [of en ?t w]
      embeddingOrEmpty_generateEmbedding [of en ?t w] by simp_all
  with d w2 show "documents w' = documents w @
           [\<lparr>doc_id = nextId w, title = ttl, content = cleanText en cont,
             category = categoryOrOther cat, tags = tagsOrEmpty tgs,
             embedding = storedEmbedding en (length (trace w)) (cleanText en cont),
             uploadedBy = userId, isPublic = True, isChunk = False,
             parentDocumentId = None, chunkIndex = None, chunkCount = None\<rparr>]"
    by simp
  from d w2 ge show "trace w' = trace (snd (generateEmbedding en (cleanText en cont) w))"
    by simp
qed

text \<open>With no database fault scheduled, ingestion succeeds.\<close>

lemma DocumentModel_create_no_faults:
  "faults w = [] \<Longrightarrow>
     \<exists>d' w'. DocumentModel_create d w = (Inr d', w') \<and> faults w' = []"
  by (simp add: DocumentModel_create_def Let_def db_op_def)

lemma writeChunks_no_faults:
  "faults w = [] \<Longrightarrow>
     \<exists>w'. writeChunks en ttl cat tgs uid pid n k0 ics w = (None, w') \<and> faults w' = []"
proof (induction ics arbitrary: w)
  case Nil
  then show ?case by simp
next
  case (Cons ic rest)
  obtain i c where ic: "ic = (i, c)" by (cases ic)
  obtain emb w1 where er: "embeddingResponse en (k0 + i) (chunk_text c) w = (emb, w1)"
    by (cases "embeddingResponse en (k0 + i) (chunk_text c) w")
  with Cons.prems have "faults w1 = []"
    using embeddingResponse_fields(5) [of en "k0 + i" "chunk_text c" w] by simp
  from DocumentModel_create_no_faults [OF this] obtain d w2 where
    cr: "DocumentModel_create
           (chunkDocument ttl cat tgs uid pid n i c (embeddingOrEmpty emb)) w1 = (Inr d, w2)"
    and f2: "faults w2 = []"
    by blast
  from Cons.IH [OF f2] obtain w3 where
    "writeChunks en ttl cat tgs uid pid n k0 rest w2 = (None, w3)" "faults w3 = []"
    by blast
  with ic er cr show ?case by simp
qed

lemma processAndSaveDocument_no_faults:
  assumes "faults w = []"
  shows "\<exists>res w'. processAndSaveDocument en ttl cont userId cat tgs w = (Inr res, w')"
proof (cases "length (cleanText en cont) > 2000")
  case True
  let ?chunks = "chunkText en (cleanText en cont) 1000 200"
  from DocumentModel_create_no_faults [OF assms] obtain parent w1 where
    cr: "DocumentModel_create
           \<lparr>doc_id = 0, title = ttl, content = cleanText en cont,
            category = categoryOrOther cat, tags = tagsOrEmpty tgs, embedding = [],
            uploadedBy = userId, isPublic = True, isChunk = False,
            parentDocumentId = None, chunkIndex = None,
            chunkCount = Some (length ?chunks)\<rparr> w = (Inr parent, w1)"
    and f1: "faults w1 = []"
    by blast
  from f1 have "faults (sendEmbeddingRequests en ?chunks w1) = []" by simp
  from writeChunks_no_faults [OF this] obtain w2 where
    "createChunks en ttl (categoryOrOther cat) (tagsOrEmpty tgs) userId
       (doc_id parent) (length ?chunks) ?chunks w1 = (None, w2)"
    unfolding createChunks_def by blast
  with True cr show ?thesis
    by (simp add: processAndSaveDocument_def Let_def)
next
  case False
  let ?t = "cleanText en cont"
  obtain emb w1 where ge: "generateEmbedding en ?t w = (emb, w1)"
    by (cases "generateEmbedding en ?t w")
  with assms have "faults w1 = []"
    using generateEmbedding_fields(5) [of en ?t w] by simp
  from DocumentModel_create_no_faults [OF this] obtain d w2 where
    "DocumentModel_create
       \<lparr>doc_id = 0, title = ttl, content = ?t,
        category = categoryOrOther cat, tags = tagsOrEmpty tgs,
        embedding = embeddingOrEmpty emb,
        uploadedBy = userId, isPublic = True, isChunk = False,
        parentDocumentId = None, chunkIndex = None, chunkCount = None\<rparr> w1 = (Inr d, w2)"
    by blast
  with False ge show ?thesis
    by (simp add: processAndSaveDocument_def Let_def)
qed

lemmas ingest_defs = processAndSaveDocument_def generateEmbedding_def createChunks_def
  arrivalOrder_def embeddingRequest_def embeddingResponse_def DocumentModel_create_def
  db_op_def voyageApiKey_def first_embedding_def embeddingOrEmpty_def categoryOrOther_def
  tagsOrEmpty_def chunkDocument_def emit_def Let_def

lemma length_long_text: "length long_text = 2001"
  by (simp add: long_text_def)


lemma ingest_handbook:
  "processAndSaveDocument env_ok ''Handbook'' long_text 7 None None w_empty
     = (Inr \<lparr>res_id = 0, res_title = ''Handbook'', res_category = ''other'',
             chunksCreated = Some 2\<rparr>,
        \<lparr>documents =
           [\<lparr>doc_id = 0, title = ''Handbook'', content = long_text,
              category = ''other'', tags = [], embedding = [], uploadedBy = 7,
              isPublic = True, isChunk = False, parentDocumentId = None, chunkIndex = None,
              chunkCount = Some 2\<rparr>,
            \<lparr>doc_id = 1, title = ''Handbook (Chunk 1/2)'', content = take 1000 long_text,
              category = ''other'', tags = [], embedding = [1, 2, 3], uploadedBy = 7,
              isPublic = True, isChunk = True, parentDocumentId = Some 0,
              chunkIndex = Some 0, chunkCount = Some 2\<rparr>,
            \<lparr>doc_id = 2, title = ''Handbook (Chunk 2/2)'', content = drop 800 long_text,
              category = ''other'', tags = [], embedding = [1, 2, 3], uploadedBy = 7,
              isPublic = True, isChunk = True, parentDocumentId = Some 0,
              chunkIndex = Some 1, chunkCount = Some 2\<rparr>],
         conversations = [], chats = [], nextId = 3, faults = [],
         trace = [EmbeddingRequest (take 1000 long_text),
                  EmbeddingRequest (drop 800 long_text)]\<rparr>)"
  by (simp add: ingest_defs env_ok_def w_empty_def length_long_text enumerate_eq_zip upt_rec
      string_of_nat.simps digit_def)

text \<open>The long text again, with the provider that rejects the first request and answers the
  second one first: the second chunk is written before the first, which has no embedding.\<close>

lemma ingest_handbook_racing:
  "processAndSaveDocument env_racing ''Handbook'' long_text 7 None None w_empty
     = (Inr \<lparr>res_id = 0, res_title = ''Handbook'', res_category = ''other'',
             chunksCreated = Some 2\<rparr>,
        \<lparr>documents =
           [\<lparr>doc_id = 0, title = ''Handbook'', content = long_text,
              category = ''other'', tags = [], embedding = [], uploadedBy = 7,
              isPublic = True, isChunk = False, parentDocumentId = None, chunkIndex = None,
              chunkCount = Some 2\<rparr>,
            \<lparr>doc_id = 1, title = ''Handbook (Chunk 2/2)'', content = drop 800 long_text,
              category = ''other'', tags = [], embedding = [1, 2, 3], uploadedBy = 7,
              isPublic = True, isChunk = True, parentDocumentId = Some 0,
              chunkIndex = Some 1, chunkCount = Some 2\<rparr>,
            \<lparr>doc_id = 2, title = ''Handbook (Chunk 1/2)'', content = take 1000 long_text,
              category = ''other'', tags = [], embedding = [], uploadedBy = 7,
              isPublic = True, isChunk = True, parentDocumentId = Some 0,
              chunkIndex = Some 0, chunkCount = Some 2\<rparr>],
         conversations = [], chats = [], nextId = 3, faults = [],
         trace = [EmbeddingRequest (take 1000 long_text),
                  EmbeddingRequest (drop 800 long_text),
                  ConsoleError ''Error generating embedding:'']\<rparr>)"
  by (simp add: ingest_defs env_racing_def env_ok_def w_empty_def length_long_text
      enumerate_eq_zip upt_rec string_of_nat.simps digit_def)





lemma ingest_notice_down:
  "processAndSaveDocument env_embed_down ''Notice'' ''Gate 3 is closed.'' 7 None None w_empty
     = (Inr \<lparr>res_id = 0, res_title = ''Notice'', res_category = ''other'', chunksCreated = None\<rparr>,
        \<lparr>documents = [\<lparr>doc_id = 0, title = ''Notice'', content = ''Gate 3 is closed.'',
           category = ''other'', tags = [], embedding = [], uploadedBy = 7,
           isPublic = True, isChunk = False, parentDocumentId = None, chunkIndex = None,
           chunkCount = None\<rparr>],
         conversations = [], chats = [], nextId = 1, faults = [],
         trace = [EmbeddingRequest ''Gate 3 is closed.'',
                  ConsoleError ''Error generating embedding:'']\<rparr>)"
  by (simp add: ingest_defs env_embed_down_def env_ok_def w_empty_def)

lemma ingest_handbook_down:
  "map isChunk
     (documents (snd (processAndSaveDocument env_embed_down ''Handbook'' long_text 7 None None
                        w_empty)))
     = [False, True, True]
   \<and> map embedding
       (documents (snd (processAndSaveDocument env_embed_down ''Handbook'' long_text 7 None None
                          w_empty)))
     = [[], [], []]"
  by (simp add: ingest_defs env_embed_down_def env_ok_def w_empty_def length_long_text
      enumerate_eq_zip upt_rec string_of_nat.simps digit_def)

text \<open>
  Claim C6, as stated, fails: with the embedding provider down, ingestion still succeeds, and
  both the unsplit document and every chunk are stored with the empty embedding.
\<close>

theorem embedding_missing_when_provider_down:
  "map isChunk
     (documents (snd (processAndSaveDocument env_embed_down ''Notice'' ''Gate 3 is closed.'' 7
                        None None w_empty)))
     = [False]
   \<and> map chunkCount
       (documents (snd (processAndSaveDocument env_embed_down ''Notice'' ''Gate 3 is closed.'' 7
                          None None w_empty)))
     = [None]
   \<and> map embedding
       (documents (snd (processAndSaveDocument env_embed_down ''Notice'' ''Gate 3 is closed.'' 7
                          None None w_empty)))
     = [[]]
   \<and> map isChunk
       (documents (snd (processAndSaveDocument env_embed_down ''Handbook'' long_text 7 None None
                          w_empty)))
     = [False, True, True]
   \<and> map embedding
       (documents (snd (processAndSaveDocument env_embed_down ''Handbook'' long_text 7 None None
                          w_empty)))
     = [[], [], []]"
  by (simp add: ingest_notice_down ingest_handbook_down)

text \<open>
  Claim C6, amended. After a successful ingestion, a parent that was split holds the empty
  embedding, and there is exactly one chunk record for each chunk; the record of the chunk at
  position \<open>j\<close> holds that chunk's text and \<open>storedEmbedding\<close> for the request number
  \<open>length (trace w) + j\<close>, and when an API key is set the event of that number is the
  embedding request for that chunk's own text. An unsplit document holds \<open>storedEmbedding\<close>
  for the request number \<open>length (trace w)\<close>, which is the request for its own content. So
  each of them holds the vector of the provider's answer to its own request, and the empty
  embedding when the provider failed on that request, answered without an embedding, or no
  API key is set.
\<close>

theorem ingestion_embeddings:
  assumes "processAndSaveDocument en ttl cont userId cat tgs w = (Inr res, w')"
  shows "(length (cleanText en cont) > 2000 \<longrightarrow>
            (\<exists>parent cs order.
                 documents w' = documents w @ parent # cs
               \<and> \<not> isChunk parent \<and> embedding parent = []
               \<and> set order = set (enumerate 0 (chunkText en (cleanText en cont) 1000 200))
               \<and> distinct order
               \<and> list_all2
                    (\<lambda>ic d. isChunk d \<and> content d = chunk_text (snd ic)
                           \<and> embedding d
                               = storedEmbedding en (length (trace w) + fst ic)
                                   (chunk_text (snd ic)))
                    order cs
               \<and> ((\<exists>key. VOYAGE_API_KEY en = Some key \<and> key \<noteq> []) \<longrightarrow>
                    prefix (trace w @ map (\<lambda>c. EmbeddingRequest (chunk_text c))
                                        (chunkText en (cleanText en cont) 1000 200))
                      (trace w'))))
       \<and> (length (cleanText en cont) \<le> 2000 \<longrightarrow>
            (\<exists>d. documents w' = documents w @ [d] \<and> \<not> isChunk d
               \<and> embedding d = storedEmbedding en (length (trace w)) (cleanText en cont)
               \<and> ((\<exists>key. VOYAGE_API_KEY en = Some key \<and> key \<noteq> []) \<longrightarrow>
                    prefix (trace w @ [EmbeddingRequest (cleanText en cont)]) (trace w'))))"
proof (cases "length (cleanText en cont) > 2000")
  case True
  let ?chunks = "chunkText en (cleanText en cont) 1000 200"
  let ?order = "arrivalOrder en (length (trace w)) ?chunks"
  from processAndSaveDocument_chunked [OF assms True] obtain parent cs where
    docs: "documents w' = documents w @ parent # cs"
    and parent: "\<not> isChunk parent" "embedding parent = []"
    and all: "list_all2
              (\<lambda>ic d. \<exists>i. d = (chunkDocument ttl (categoryOrOther cat) (tagsOrEmpty tgs) userId
                                 (nextId w) (length ?chunks) (fst ic) (snd ic)
                                 (storedEmbedding en (length (trace w) + fst ic)
                                    (chunk_text (snd ic))))
                               \<lparr>doc_id := i\<rparr>)
              ?order cs"
    and tr: "prefix (trace w @ (if voyageApiKey en = [] then []
                               else map (\<lambda>c. EmbeddingRequest (chunk_text c)) ?chunks))
               (trace w')"
    by auto
  from all
  have "list_all2
          (\<lambda>ic d. isChunk d \<and> content d = chunk_text (snd ic)
                 \<and> embedding d
                     = storedEmbedding en (length (trace w) + fst ic) (chunk_text (snd ic)))
          ?order cs"
    by (rule list_all2_mono) (auto simp: chunkDocument_def)
  moreover have "prefix (trace w @ map (\<lambda>c. EmbeddingRequest (chunk_text c)) ?chunks) (trace w')"
    if "\<exists>key. VOYAGE_API_KEY en = Some key \<and> key \<noteq> []"
    using tr that by (auto simp: voyageApiKey_def)
  ultimately show ?thesis
    using True docs parent arrivalOrder_permutes [of en "length (trace w)" ?chunks]
    by (intro conjI impI exI [of _ parent] exI [of _ cs] exI [of _ ?order]) simp_all
next
  case False
  then have small: "length (cleanText en cont) \<le> 2000" by simp
  have "prefix (trace w @ [EmbeddingRequest (cleanText en cont)]) (trace w')"
    if "\<exists>key. VOYAGE_API_KEY en = Some key \<and> key \<noteq> []"
  proof -
    from that have "voyageApiKey en \<noteq> []" by (auto simp: voyageApiKey_def)
    then show ?thesis
      by (simp add: processAndSaveDocument_single(2) [OF assms small] generateEmbedding_def
          Let_def split: sum.splits option.splits)
  qed
  with processAndSaveDocument_single(1) [OF assms small] small show ?thesis
    by simp
qed

theorem ingestion_embeddings_witness:
  "length (cleanText env_embed_down ''Gate 3 is closed.'') \<le> 2000
   \<and> storedEmbedding env_embed_down 0 ''Gate 3 is closed.'' = []
   \<and> map embedding (documents (snd (processAndSaveDocument env_embed_down ''Notice''
                                      ''Gate 3 is closed.'' 7 None None w_empty))) = [[]]
   \<and> length (cleanText env_racing long_text) > 2000
   \<and> storedEmbedding env_racing 0 (take 1000 long_text) = []
   \<and> storedEmbedding env_racing 1 (drop 800 long_text) = [1, 2, 3]
   \<and> map chunkIndex (documents (snd (processAndSaveDocument env_racing ''Handbook'' long_text 7
                                       None None w_empty)))
       = [None, Some 1, Some 0]
   \<and> map embedding (documents (snd (processAndSaveDocument env_racing ''Handbook'' long_text 7
                                      None None w_empty)))
       = [[], [1, 2, 3], []]"
proof -
  note single = ingestion_embeddings [OF ingest_notice_down]
  note chunked = ingestion_embeddings [OF ingest_handbook_racing]
  have "length (cleanText env_embed_down ''Gate 3 is closed.'') \<le> 2000"
    and "storedEmbedding env_embed_down 0 ''Gate 3 is closed.'' = []"
    and "length (cleanText env_racing long_text) > 2000"
    and "storedEmbedding env_racing 0 (take 1000 long_text) = []"
    and "storedEmbedding env_racing 1 (drop 800 long_text) = [1, 2, 3]"
    by (simp_all add: env_embed_down_def env_racing_def env_ok_def length_long_text
        storedEmbedding_def)
  then show ?thesis
    using single chunked by (simp add: ingest_notice_down ingest_handbook_racing)
qed

section \<open>Embedding dimensionality\<close>




section \<open>Prompt construction\<close>









section \<open>The ask pipeline\<close>

lemma textSearchStep_fields [simp]:
  "documents (snd (textSearchStep en query limit rs w)) = documents w"
  "conversations (snd (textSearchStep en query limit rs w)) = conversations w"
  "chats (snd (textSearchStep en query limit rs w)) = chats w"
  "nextId (snd (textSearchStep en query limit rs w)) = nextId w"
  "faults (snd (textSearchStep en query limit rs w)) = faults w"
  by (simp_all add: textSearchStep_def Let_def split: sum.splits)

lemma searchDocuments_fields [simp]:
  "documents (snd (searchDocuments en query emb limit w)) = documents w"
  "conversations (snd (searchDocuments en query emb limit w)) = conversations w"
  "chats (snd (searchDocuments en query emb limit w)) = chats w"
  "nextId (snd (searchDocuments en query emb limit w)) = nextId w"
  "faults (snd (searchDocuments en query emb limit w)) = faults w"
  by (simp_all add: searchDocuments_def Let_def split: sum.splits option.splits)

lemma generateAnswer_fields [simp]:
  "documents (snd (generateAnswer en question ctx w)) = documents w"
  "conversations (snd (generateAnswer en question ctx w)) = conversations w"
  "chats (snd (generateAnswer en question ctx w)) = chats w"
  "nextId (snd (generateAnswer en question ctx w)) = nextId w"
  "faults (snd (generateAnswer en question ctx w)) = faults w"
  by (simp_all add: generateAnswer_def Let_def split: sum.splits)

lemma generateAnswer_traced: "trace (snd (generateAnswer en question ctx w)) \<noteq> []"
  by (simp add: generateAnswer_def Let_def split: sum.splits)

lemma processQuestion_snd:
  "snd (processQuestion en question w) =
     snd (generateAnswer en question
            (fst (searchDocuments en question (fst (generateEmbedding en question w)) 3
                    (snd (generateEmbedding en question w))))
            (snd (searchDocuments en question (fst (generateEmbedding en question w)) 3
                    (snd (generateEmbedding en question w)))))"
  by (simp add: processQuestion_def split: prod.splits sum.splits)

lemma processQuestion_fields [simp]:
  "documents (snd (processQuestion en question w)) = documents w"
  "conversations (snd (processQuestion en question w)) = conversations w"
  "chats (snd (processQuestion en question w)) = chats w"
  "nextId (snd (processQuestion en question w)) = nextId w"
  "faults (snd (processQuestion en question w)) = faults w"
  by (simp_all add: processQuestion_snd)

lemma processQuestion_traced: "trace (snd (processQuestion en question w)) \<noteq> []"
  by (simp add: processQuestion_snd generateAnswer_traced)

text \<open>A generative provider that, for a given prompt, throws or returns only white space.\<close>

lemma generateAnswer_failed:
  "(case generateContent en (buildPrompt en question ctx) of
      Inl e \<Rightarrow> True | Inr txt \<Rightarrow> trim txt = [])
   \<Longrightarrow> fst (generateAnswer en question ctx w) = Inl generationFailed"
  by (auto simp: generateAnswer_def Let_def split: sum.splits)

lemma generateAnswer_ok:
  "generateContent en (buildPrompt en question ctx) = Inr txt \<Longrightarrow> trim txt \<noteq> []
   \<Longrightarrow> fst (generateAnswer en question ctx w) = Inr (trim txt)"
  by (auto simp: generateAnswer_def Let_def trim_def split: sum.splits)

lemma processQuestion_ok:
  "\<forall>p. generateContent en p = Inr txt \<Longrightarrow> trim txt \<noteq> []
   \<Longrightarrow> \<exists>docs. fst (processQuestion en question w) = Inr (trim txt, docs)"
proof -
  assume a: "\<forall>p. generateContent en p = Inr txt" and b: "trim txt \<noteq> []"
  obtain emb w1 where ge: "generateEmbedding en question w = (emb, w1)"
    by (cases "generateEmbedding en question w")
  obtain docs w2 where sd: "searchDocuments en question emb 3 w1 = (docs, w2)"
    by (cases "searchDocuments en question emb 3 w1")
  from a b have "fst (generateAnswer en question docs w2) = Inr (trim txt)"
    by (intro generateAnswer_ok) simp_all
  with ge sd show ?thesis
    by (auto simp: processQuestion_def split: prod.splits sum.splits)
qed

text \<open>\<^verbatim>\<open>askQuestion\<close> for an authenticated caller and a question that is not blank.\<close>

lemma askQuestion_accepted:
  "req_user req = Some u \<Longrightarrow> req_question req = Some q \<Longrightarrow> trim q \<noteq> [] \<Longrightarrow>
   askQuestion en req w =
     (case processQuestion en q w of
        (Inl e, w1) \<Rightarrow> chatError e w1
      | (Inr (answer, relevantDocs), w1) \<Rightarrow>
          persistAndRespond (user_id u) q answer relevantDocs (req_conversationId req) w1)"
  by (auto simp: askQuestion_def trim_def)

lemma trim_nonblank: "q \<noteq> [] \<Longrightarrow> \<not> isWhiteSpace (hd q) \<Longrightarrow> trim q \<noteq> []"
  by (cases q) (simp_all add: trim_def)

section \<open>Generation failure\<close>

lemmas ask_defs = askQuestion_def processQuestion_def generateEmbedding_def searchDocuments_def
  textSearchStep_def generateAnswer_def persistAndRespond_def handleConversation_def
  createConversation_def Conversation_create_def Conversation_findOne_def
  Conversation_save_def saveChatHistory_def Chat_create_def chatError_def db_op_def
  voyageApiKey_def first_embedding_def emit_def generationFailed_def conversationTitle_def
  trim_def isWhiteSpace_def Let_def

text \<open>
  Claim C3, as stated, fails: with the generative provider rejecting the request, the caller
  gets status 500 with \<^verbatim>\<open>success: false\<close> and no answer at all.
\<close>

theorem generation_failure_is_fatal:
  "fst (askQuestion env_gen_down req_exit w_empty)
     = \<lparr>status = 500,
        json = Failure ''Error processing your question''
                 (Some ''Failed to generate response from AI service.'')\<rparr>"
  by (simp add: ask_defs env_gen_down_def env_ok_def req_exit_def student_def w_empty_def)

lemma generateAnswer_sends:
  "GenerateContent (buildPrompt en question ctx)
     \<in> set (trace (snd (generateAnswer en question ctx w)))"
  by (simp add: generateAnswer_def Let_def split: sum.splits)

text \<open>\<^verbatim>\<open>processQuestion\<close> sends exactly one prompt, \<open>promptSent\<close>, and fails when the provider
  throws on it or answers it with white space only.\<close>

lemma processQuestion_sends:
  "GenerateContent (promptSent en question w) \<in> set (trace (snd (processQuestion en question w)))"
  by (simp add: processQuestion_snd promptSent_def generateAnswer_sends)

lemma processQuestion_failed_prompt:
  assumes "case generateContent en (promptSent en question w) of
             Inl e \<Rightarrow> True | Inr txt \<Rightarrow> trim txt = []"
  shows "fst (processQuestion en question w) = Inl generationFailed"
proof -
  obtain emb w1 where ge: "generateEmbedding en question w = (emb, w1)"
    by (cases "generateEmbedding en question w")
  obtain docs w2 where sd: "searchDocuments en question emb 3 w1 = (docs, w2)"
    by (cases "searchDocuments en question emb 3 w1")
  from ge sd have "promptSent en question w = buildPrompt en question docs"
    by (simp add: promptSent_def)
  with assms have "fst (generateAnswer en question docs w2) = Inl generationFailed"
    by (intro generateAnswer_failed) simp
  with ge sd show ?thesis
    by (auto simp: processQuestion_def split: prod.splits sum.splits)
qed

text \<open>
  Claim C3, amended. For an authenticated caller and a question that is not blank, when the
  generative provider throws on the prompt that this request sends, or answers it with an
  empty or white-space text, the request ends with status 500 and the body
  \<^verbatim>\<open>{ success: false, message: 'Error processing your question', error: 'Failed to
  generate response from AI service.' }\<close>: the provider's own error is replaced by a fixed
  text, no answer is returned, and nothing is written to the conversation store. The prompt
  in question is \<open>promptSent\<close>, the one built from the question and the documents retrieved for
  it, and it is the prompt found in the trace of the request.
\<close>

theorem generation_failure_response:
  assumes "req_user req = Some u" and "req_question req = Some q" and "trim q \<noteq> []"
    and "case generateContent en (promptSent en q w) of
           Inl e \<Rightarrow> True | Inr txt \<Rightarrow> trim txt = []"
  shows "fst (askQuestion en req w)
           = \<lparr>status = 500,
              json = Failure ''Error processing your question''
                       (Some ''Failed to generate response from AI service.'')\<rparr>
         \<and> GenerateContent (promptSent en q w) \<in> set (trace (snd (askQuestion en req w)))
         \<and> conversations (snd (askQuestion en req w)) = conversations w
         \<and> chats (snd (askQuestion en req w)) = chats w"
proof -
  obtain r w1 where pq: "processQuestion en q w = (r, w1)"
    by (cases "processQuestion en q w")
  with processQuestion_failed_prompt [OF assms(4)] have r: "r = Inl generationFailed"
    by simp
  from pq have "conversations w1 = conversations w" "chats w1 = chats w"
    and "GenerateContent (promptSent en q w) \<in> set (trace w1)"
    using processQuestion_fields(2,3) [of en q w] processQuestion_sends [of en q w]
    by simp_all
  with pq r show ?thesis
    by (simp add: askQuestion_accepted [OF assms(1-3)] chatError_def generationFailed_def)
qed

theorem generation_failure_response_witness:
  "req_user req_exit = Some student \<and> req_question req_exit = Some ''Where is the exit?''
   \<and> trim ''Where is the exit?'' \<noteq> []
   \<and> generateContent env_gen_picky [] = Inr ''pong''
   \<and> generateContent env_gen_picky (promptSent env_gen_picky ''Where is the exit?'' w_empty)
       = Inl (Error ''429 Resource has been exhausted'')
   \<and> status (fst (askQuestion env_gen_picky req_exit w_empty)) = 500
   \<and> conversations (snd (askQuestion env_gen_picky req_exit w_empty)) = []"
proof -
  have a: "req_user req_exit = Some student"
    and b: "req_question req_exit = Some ''Where is the exit?''"
    and c: "trim ''Where is the exit?'' \<noteq> []"
    by (simp_all add: req_exit_def trim_nonblank isWhiteSpace_def)
  have "promptSent env_gen_picky ''Where is the exit?'' w_empty \<noteq> []"
    by (simp add: promptSent_def buildPrompt_def systemLine_def)
  then have d: "generateContent env_gen_picky
                  (promptSent env_gen_picky ''Where is the exit?'' w_empty)
                = Inl (Error ''429 Resource has been exhausted'')"
    and e: "generateContent env_gen_picky [] = Inr ''pong''"
    by (simp_all add: env_gen_picky_def)
  from d have f: "case generateContent env_gen_picky
                         (promptSent env_gen_picky ''Where is the exit?'' w_empty) of
                    Inl e \<Rightarrow> True | Inr txt \<Rightarrow> trim txt = []"
    by simp
  from generation_failure_response [OF a b c f] a b c d e show ?thesis
    by (simp add: w_empty_def)
qed

section \<open>Conversation handling and chat history\<close>

lemma conversationTitle_length: "length (conversationTitle q) \<le> 50"
  by (simp add: conversationTitle_def)

lemma Conversation_create_result:
  "Conversation_create uid ttl lm w = (r, w') \<Longrightarrow>
     trace w' = trace w \<and> chats w' = chats w \<and> documents w' = documents w
     \<and> (case r of
           Inl e \<Rightarrow> conversations w' = conversations w \<and> faults w \<noteq> []
         | Inr c \<Rightarrow> conversations w' = conversations w @ [c] \<and> conv_title c = ttl
                    \<and> conv_user c = uid \<and> lastMessage c = lm \<and> conv_id c = nextId w)"
  by (auto simp: Conversation_create_def db_op_def Let_def split: list.splits option.splits)

lemma createConversation_result:
  "createConversation uid q a w = (r, w') \<Longrightarrow>
     trace w' = trace w \<and> chats w' = chats w \<and> documents w' = documents w
     \<and> (case r of
           Inl e \<Rightarrow> conversations w' = conversations w \<and> faults w \<noteq> []
         | Inr cid \<Rightarrow> (\<exists>c. conversations w' = conversations w @ [c]
                         \<and> conv_title c = conversationTitle q \<and> conv_user c = uid
                         \<and> lastMessage c = take 100 a \<and> conv_id c = cid))"
  by (auto simp: createConversation_def split: prod.splits sum.splits
      dest!: Conversation_create_result)

lemma Conversation_findOne_result:
  "Conversation_findOne cid uid w = (r, w') \<Longrightarrow>
     trace w' = trace w \<and> chats w' = chats w \<and> documents w' = documents w
     \<and> conversations w' = conversations w \<and> (faults w = [] \<longrightarrow> faults w' = [] \<and> r \<noteq> Inl e)"
  by (auto simp: Conversation_findOne_def db_op_def split: list.splits option.splits)

lemma Conversation_save_result:
  "Conversation_save c w = (r, w') \<Longrightarrow>
     trace w' = trace w \<and> chats w' = chats w \<and> documents w' = documents w
     \<and> length (conversations w') = length (conversations w)
     \<and> (faults w = [] \<longrightarrow> r \<noteq> Inl e)"
  by (auto simp: Conversation_save_def db_op_def split: list.splits option.splits)

text \<open>The conversation section leaves the number of conversations as it is, or appends exactly
  one, whose title is derived from the question.\<close>

lemma handleConversation_result:
  "handleConversation uid q a rcid w = (r, w') \<Longrightarrow>
     trace w' = trace w \<and> chats w' = chats w \<and> documents w' = documents w
     \<and> (length (conversations w') = length (conversations w)
        \<or> (\<exists>c. conversations w' = conversations w @ [c]
                 \<and> conv_title c = conversationTitle q \<and> conv_user c = uid
                 \<and> lastMessage c = take 100 a \<and> r = Inr (conv_id c)))"
proof -
  assume h: "handleConversation uid q a rcid w = (r, w')"
  have create: "trace w2 = trace w1 \<and> chats w2 = chats w1 \<and> documents w2 = documents w1
     \<and> (length (conversations w2) = length (conversations w1)
        \<or> (\<exists>c. conversations w2 = conversations w1 @ [c]
                 \<and> conv_title c = conversationTitle q \<and> conv_user c = uid
                 \<and> lastMessage c = take 100 a \<and> r' = Inr (conv_id c)))"
    if "createConversation uid q a w1 = (r', w2)" for w1 w2 r'
    using createConversation_result [OF that] by (cases r') auto
  show ?thesis
  proof (cases rcid)
    case None
    with h create show ?thesis by (simp add: handleConversation_def)
  next
    case (Some cid)
    obtain f w1 where fo: "Conversation_findOne cid uid w = (f, w1)"
      by (cases "Conversation_findOne cid uid w")
    note fr = Conversation_findOne_result [OF fo]
    show ?thesis
    proof (cases f)
      case (Inl e)
      with h Some fo fr show ?thesis by (simp add: handleConversation_def)
    next
      case (Inr found)
      show ?thesis
      proof (cases found)
        case None
        with h Some fo Inr have "createConversation uid q a w1 = (r, w')"
          by (simp add: handleConversation_def)
        from create [OF this] fr show ?thesis by simp
      next
        case (Some c)
        obtain s w2 where sv: "Conversation_save (c\<lparr>lastMessage := take 100 a\<rparr>) w1 = (s, w2)"
          by (cases "Conversation_save (c\<lparr>lastMessage := take 100 a\<rparr>) w1")
        with h \<open>rcid = Some cid\<close> fo Inr Some have "w' = w2"
          by (cases s) (simp_all add: handleConversation_def)
        with Conversation_save_result [OF sv] fr show ?thesis by simp
      qed
    qed
  qed
qed

lemma handleConversation_no_faults:
  "faults w = [] \<Longrightarrow> \<exists>cid. fst (handleConversation uid q a rcid w) = Inr cid"
  by (auto simp: handleConversation_def createConversation_def Conversation_create_def
      Conversation_findOne_def Conversation_save_def db_op_def Let_def
      split: option.splits prod.splits sum.splits)

lemma Chat_create_result:
  "Chat_create m w = (r, w') \<Longrightarrow>
     trace w' = trace w \<and> conversations w' = conversations w \<and> documents w' = documents w
     \<and> (case r of Inl e \<Rightarrow> chats w' = chats w \<and> faults w = Some e # faults w'
                 | Inr u \<Rightarrow> chats w' = chats w @ [m] \<and> faults w' = tl (faults w)
                            \<and> (faults w = [] \<or> hd (faults w) = None))"
  by (auto simp: Chat_create_def db_op_def split: list.splits option.splits)

lemma saveChatHistory_fields [simp]:
  "conversations (saveChatHistory uid cid q a w) = conversations w"
  "documents (saveChatHistory uid cid q a w) = documents w"
  by (auto simp: saveChatHistory_def split: prod.splits sum.splits dest!: Chat_create_result)

lemma saveChatHistory_trace: "prefix (trace w) (trace (saveChatHistory uid cid q a w))"
  by (auto simp: saveChatHistory_def split: prod.splits sum.splits dest!: Chat_create_result)

text \<open>A failed write of either message is logged.\<close>

lemma saveChatHistory_logged:
  "faults w = Some e # fs \<or> faults w = None # Some e # fs \<Longrightarrow>
     ConsoleError ''Error saving chat history:'' \<in> set (trace (saveChatHistory uid cid q a w))"
  by (auto simp: saveChatHistory_def Chat_create_def db_op_def split: prod.splits sum.splits)

lemma persistAndRespond_Inr:
  "handleConversation uid q a rcid w = (Inr cid, w1) \<Longrightarrow>
     persistAndRespond uid q a docs rcid w =
       (\<lparr>status = 200, json = AskSuccess q a cid (map toSource docs)\<rparr>,
        saveChatHistory uid cid q a w1)"
  by (simp add: persistAndRespond_def)

lemma persistAndRespond_Inl:
  "handleConversation uid q a rcid w = (Inl e, w1) \<Longrightarrow>
     persistAndRespond uid q a docs rcid w = chatError e w1"
  by (simp add: persistAndRespond_def)

lemma persistAndRespond_conversations:
  "persistAndRespond uid q a docs rcid w = (resp, w') \<Longrightarrow>
     length (conversations w') = length (conversations w)
     \<or> (\<exists>c. conversations w' = conversations w @ [c] \<and> conv_title c = conversationTitle q)"
proof -
  assume p: "persistAndRespond uid q a docs rcid w = (resp, w')"
  obtain r w1 where hc: "handleConversation uid q a rcid w = (r, w1)"
    by (cases "handleConversation uid q a rcid w")
  from handleConversation_result [OF hc]
  have c: "length (conversations w1) = length (conversations w)
     \<or> (\<exists>c. conversations w1 = conversations w @ [c] \<and> conv_title c = conversationTitle q)"
    by auto
  show ?thesis
  proof (cases r)
    case (Inl e)
    with p hc have "w' = emit (ConsoleError ''Chat error:'') w1"
      by (simp add: persistAndRespond_def chatError_def)
    with c show ?thesis by simp
  next
    case (Inr cid)
    with p hc have "w' = saveChatHistory uid cid q a w1"
      by (simp add: persistAndRespond_def)
    with c show ?thesis by simp
  qed
qed

lemma persistAndRespond_trace:
  "prefix (trace w) (trace (snd (persistAndRespond uid q a docs rcid w)))"
proof -
  obtain r w1 where hc: "handleConversation uid q a rcid w = (r, w1)"
    by (cases "handleConversation uid q a rcid w")
  from handleConversation_result [OF hc] have t: "trace w1 = trace w" by simp
  show ?thesis
  proof (cases r)
    case (Inl e)
    with hc t show ?thesis by (simp add: persistAndRespond_def chatError_def)
  next
    case (Inr cid)
    with hc t saveChatHistory_trace [of w1 uid cid q a] show ?thesis
      by (simp add: persistAndRespond_def)
  qed
qed

lemma persistAndRespond_no_faults:
  "faults w = [] \<Longrightarrow> status (fst (persistAndRespond uid q a docs rcid w)) = 200"
proof -
  assume "faults w = []"
  from handleConversation_no_faults [OF this, of uid q a rcid] obtain cid where
    "fst (handleConversation uid q a rcid w) = Inr cid" by blast
  then show ?thesis
    by (cases "handleConversation uid q a rcid w") (simp add: persistAndRespond_def)
qed

section \<open>Validation of the question\<close>

lemma generateEmbedding_trace:
  "voyageApiKey en \<noteq> [] \<Longrightarrow>
     prefix (trace w @ [EmbeddingRequest txt]) (trace (snd (generateEmbedding en txt w)))"
  by (simp add: generateEmbedding_def Let_def split: sum.splits option.splits)

lemma textSearchStep_trace: "prefix (trace w) (trace (snd (textSearchStep en query limit rs w)))"
  by (simp add: textSearchStep_def Let_def prefix_def split: sum.splits)

lemma searchDocuments_trace:
  "prefix (trace w) (trace (snd (searchDocuments en query emb limit w)))"
proof -
  have step: "prefix (trace w) (trace (snd (textSearchStep en query limit rs w')))"
    if "prefix (trace w) (trace w')" for rs w'
    using that textSearchStep_trace [of w' en query limit rs] by (rule prefix_order.order_trans)
  show ?thesis
    by (auto simp: searchDocuments_def Let_def split: sum.splits option.splits
        intro!: step textSearchStep_trace)
qed

lemma generateAnswer_trace: "prefix (trace w) (trace (snd (generateAnswer en question ctx w)))"
  by (simp add: generateAnswer_def Let_def prefix_def split: sum.splits)

lemma processQuestion_trace:
  assumes "voyageApiKey en \<noteq> []"
  shows "prefix (trace w @ [EmbeddingRequest question])
           (trace (snd (processQuestion en question w)))"
proof -
  let ?w1 = "snd (generateEmbedding en question w)"
  let ?emb = "fst (generateEmbedding en question w)"
  let ?w2 = "snd (searchDocuments en question ?emb 3 ?w1)"
  let ?docs = "fst (searchDocuments en question ?emb 3 ?w1)"
  have "prefix (trace w @ [EmbeddingRequest question]) (trace ?w1)"
    using assms by (rule generateEmbedding_trace)
  also have "prefix (trace ?w1) (trace ?w2)"
    by (rule searchDocuments_trace)
  also have "prefix (trace ?w2) (trace (snd (generateAnswer en question ?docs ?w2)))"
    by (rule generateAnswer_trace)
  finally show ?thesis
    by (simp add: processQuestion_snd)
qed

text \<open>With both providers up and no database fault, an accepted question is answered, and the
  first thing that happens is the embedding request for the question.\<close>

lemma askQuestion_answers:
  assumes "req_user req = Some u" and "req_question req = Some q" and "trim q \<noteq> []"
    and "\<forall>p. generateContent en p = Inr txt" and "trim txt \<noteq> []"
    and "faults w = []" and "voyageApiKey en \<noteq> []"
  shows "status (fst (askQuestion en req w)) = 200"
    and "prefix (trace w @ [EmbeddingRequest q]) (trace (snd (askQuestion en req w)))"
proof -
  obtain r w1 where pq: "processQuestion en q w = (r, w1)"
    by (cases "processQuestion en q w")
  from processQuestion_ok [OF assms(4,5), of q w] pq obtain docs where
    r: "r = Inr (trim txt, docs)" by auto
  from pq assms(6) have f: "faults w1 = []"
    using processQuestion_fields(5) [of en q w] by simp
  from pq have t: "prefix (trace w @ [EmbeddingRequest q]) (trace w1)"
    using processQuestion_trace [OF assms(7), of w q] by simp
  have ask: "askQuestion en req w
               = persistAndRespond (user_id u) q (trim txt) docs (req_conversationId req) w1"
    using pq r by (simp add: askQuestion_accepted [OF assms(1-3)])
  show "status (fst (askQuestion en req w)) = 200"
    using persistAndRespond_no_faults [OF f] by (simp add: ask)
  show "prefix (trace w @ [EmbeddingRequest q]) (trace (snd (askQuestion en req w)))"
    using t persistAndRespond_trace [of w1 "user_id u" q "trim txt" docs "req_conversationId req"]
    by (simp add: ask)
qed

text \<open>
  Claim C4, as stated, fails for the maximum length: the later controller accepts a question
  of 1001 code units, sends it to the embedding provider and answers with status 200.
\<close>

theorem oversized_question_accepted:
  "length (replicate 1001 (CHR ''a'')) > 1000
   \<and> status (fst (askQuestion env_ok req_long w_empty)) = 200
   \<and> prefix [EmbeddingRequest (replicate 1001 (CHR ''a''))]
       (trace (snd (askQuestion env_ok req_long w_empty)))"
proof -
  have u: "req_user req_long = Some student"
    and q: "req_question req_long = Some (replicate 1001 (CHR ''a''))"
    by (simp_all add: req_long_def)
  have t: "trim (replicate 1001 (CHR ''a'')) \<noteq> []"
    by (rule trim_nonblank) (simp_all add: isWhiteSpace_def)
  have g: "\<forall>p. generateContent env_ok p = Inr ''Call campus security.''"
    and a: "trim ''Call campus security.'' \<noteq> []"
    and f: "faults w_empty = []" and k: "voyageApiKey env_ok \<noteq> []"
    by (simp_all add: env_ok_def w_empty_def voyageApiKey_def trim_nonblank isWhiteSpace_def)
  from askQuestion_answers [OF u q t g a f k] show ?thesis
    by (simp add: w_empty_def)
qed

text \<open>
  Claim C4, amended. A request without an authenticated user is answered 401, and a request
  whose question is missing, empty or only white space is answered 400
  (\<^verbatim>\<open>Please provide a question\<close>), by both controller snapshots, with the state and the
  trace unchanged: no embedding request, no index query, no generation request and no
  database operation has been made. A non-blank question of more than 1000 code units is
  rejected in the same way (\<^verbatim>\<open>Question is too long (max 1000 characters)\<close>) by the earlier
  snapshot only; the later snapshot has no maximum length.
\<close>

theorem question_validation:
  "(req_user req = None \<longrightarrow>
      askQuestion en req w = (\<lparr>status = 401, json = Failure ''Not authorized'' None\<rparr>, w)
      \<and> askQuestion_100540 en req w
          = (\<lparr>status = 401, json = Failure ''Not authorized'' None\<rparr>, w))
   \<and> (req_user req \<noteq> None
        \<and> (req_question req = None \<or> (\<exists>q. req_question req = Some q \<and> trim q = [])) \<longrightarrow>
      askQuestion en req w
        = (\<lparr>status = 400, json = Failure ''Please provide a question'' None\<rparr>, w)
      \<and> askQuestion_100540 en req w
          = (\<lparr>status = 400, json = Failure ''Please provide a question'' None\<rparr>, w))
   \<and> (\<forall>q. req_user req \<noteq> None \<and> req_question req = Some q \<and> trim q \<noteq> []
          \<and> length q > 1000 \<longrightarrow>
      askQuestion_100540 en req w
        = (\<lparr>status = 400,
            json = Failure ''Question is too long (max 1000 characters)'' None\<rparr>, w))"
  by (auto simp: askQuestion_def askQuestion_100540_def trim_def split: option.splits)

theorem question_validation_witness:
  "req_user req_blank \<noteq> None \<and> req_question req_blank = Some ''   '' \<and> trim ''   '' = []
   \<and> askQuestion env_ok req_blank w_empty
       = (\<lparr>status = 400, json = Failure ''Please provide a question'' None\<rparr>, w_empty)
   \<and> req_user req_long \<noteq> None \<and> trim (replicate 1001 (CHR ''a'')) \<noteq> []
   \<and> askQuestion_100540 env_ok req_long w_empty
       = (\<lparr>status = 400, json = Failure ''Question is too long (max 1000 characters)'' None\<rparr>,
          w_empty)"
proof -
  have b: "req_user req_blank \<noteq> None" "req_question req_blank = Some ''   ''" "trim ''   '' = []"
    by (simp_all add: req_blank_def trim_def isWhiteSpace_def)
  have l: "req_user req_long \<noteq> None" "req_question req_long = Some (replicate 1001 (CHR ''a''))"
    by (simp_all add: req_long_def)
  have t: "trim (replicate 1001 (CHR ''a'')) \<noteq> []"
    by (rule trim_nonblank) (simp_all add: isWhiteSpace_def)
  from question_validation [of req_blank env_ok w_empty] b
  have 1: "askQuestion env_ok req_blank w_empty
       = (\<lparr>status = 400, json = Failure ''Please provide a question'' None\<rparr>, w_empty)"
    by blast
  from question_validation [of req_long env_ok w_empty] l t
  have 2: "askQuestion_100540 env_ok req_long w_empty
       = (\<lparr>status = 400, json = Failure ''Question is too long (max 1000 characters)'' None\<rparr>,
          w_empty)"
    by simp
  from 1 2 b l t show ?thesis by simp
qed

section \<open>Persistence is best effort for messages only\<close>

text \<open>
  Claim C9, as stated, fails for the conversation: the answer has been generated, the write
  of the new conversation throws, and the request ends with status 500.
\<close>

theorem conversation_write_failure_is_fatal:
  "fst (processQuestion env_ok ''Where is the exit?'' w_db_down) = Inr (''Call campus security.'', [])
   \<and> fst (askQuestion env_ok req_exit w_db_down)
       = \<lparr>status = 500,
          json = Failure ''Error processing your question'' (Some ''MongoNetworkError'')\<rparr>"
  by (simp add: ask_defs env_ok_def req_exit_def student_def w_db_down_def w_empty_def)

text \<open>
  Claim C9, amended. For an authenticated ask request whose answer has been generated: if the
  conversation section succeeds, the request is answered with status 200 and the answer,
  whatever happens to the two message writes, and a failure of either message write is
  logged; if the lookup, update or creation of the conversation throws, the request is
  answered with status 500.
\<close>

theorem message_write_failure_tolerated:
  assumes "req_user req = Some u" and "req_question req = Some q" and "trim q \<noteq> []"
    and "processQuestion en q w = (Inr (answer, docs), w1)"
  shows "(\<forall>cid w2.
            handleConversation (user_id u) q answer (req_conversationId req) w1 = (Inr cid, w2)
            \<longrightarrow> fst (askQuestion en req w)
                  = \<lparr>status = 200, json = AskSuccess q answer cid (map toSource docs)\<rparr>
                \<and> ((\<exists>e fs. faults w2 = Some e # fs \<or> faults w2 = None # Some e # fs)
                    \<longrightarrow> ConsoleError ''Error saving chat history:''
                          \<in> set (trace (snd (askQuestion en req w)))))
       \<and> (\<forall>e w2.
            handleConversation (user_id u) q answer (req_conversationId req) w1 = (Inl e, w2)
            \<longrightarrow> fst (askQuestion en req w)
                  = \<lparr>status = 500,
                     json = Failure ''Error processing your question'' (Some (message e))\<rparr>)"
proof -
  have ask: "askQuestion en req w
               = persistAndRespond (user_id u) q answer docs (req_conversationId req) w1"
    using assms(4) by (simp add: askQuestion_accepted [OF assms(1-3)])
  show ?thesis
  proof (intro conjI allI impI)
    fix cid w2
    assume hc: "handleConversation (user_id u) q answer (req_conversationId req) w1
                  = (Inr cid, w2)"
    show "fst (askQuestion en req w)
            = \<lparr>status = 200, json = AskSuccess q answer cid (map toSource docs)\<rparr>"
      by (simp add: ask persistAndRespond_Inr [OF hc])
    assume "\<exists>e fs. faults w2 = Some e # fs \<or> faults w2 = None # Some e # fs"
    then obtain e fs where "faults w2 = Some e # fs \<or> faults w2 = None # Some e # fs"
      by blast
    from saveChatHistory_logged [OF this]
    show "ConsoleError ''Error saving chat history:'' \<in> set (trace (snd (askQuestion en req w)))"
      by (simp add: ask persistAndRespond_Inr [OF hc])
  next
    fix e w2
    assume hc: "handleConversation (user_id u) q answer (req_conversationId req) w1
                  = (Inl e, w2)"
    show "fst (askQuestion en req w)
            = \<lparr>status = 500,
               json = Failure ''Error processing your question'' (Some (message e))\<rparr>"
      by (simp add: ask persistAndRespond_Inl [OF hc] chatError_def)
  qed
qed

theorem message_write_failure_tolerated_witness:
  "faults (snd (handleConversation (user_id student) ''Where is the exit?''
                  ''Call campus security.'' (req_conversationId req_exit)
                  (snd (processQuestion env_ok ''Where is the exit?'' w_chat_down))))
     = [Some (Error ''MongoNetworkError'')]
   \<and> fst (askQuestion env_ok req_exit w_chat_down)
       = \<lparr>status = 200,
          json = AskSuccess ''Where is the exit?'' ''Call campus security.'' 0 []\<rparr>
   \<and> ConsoleError ''Error saving chat history:''
       \<in> set (trace (snd (askQuestion env_ok req_exit w_chat_down)))
   \<and> chats (snd (askQuestion env_ok req_exit w_chat_down)) = []"
proof -
  let ?w1 = "snd (processQuestion env_ok ''Where is the exit?'' w_chat_down)"
  let ?w2 = "snd (handleConversation (user_id student) ''Where is the exit?''
                  ''Call campus security.'' (req_conversationId req_exit) ?w1)"
  have u: "req_user req_exit = Some student"
    and q: "req_question req_exit = Some ''Where is the exit?''"
    and t: "trim ''Where is the exit?'' \<noteq> []"
    by (simp_all add: req_exit_def trim_nonblank isWhiteSpace_def)
  have pq: "processQuestion env_ok ''Where is the exit?'' w_chat_down
              = (Inr (''Call campus security.'', []), ?w1)"
    by (simp add: prod_eq_iff ask_defs env_ok_def w_chat_down_def w_empty_def)
  have f1: "faults ?w1 = [None, Some (Error ''MongoNetworkError'')]"
    by (simp add: w_chat_down_def w_empty_def)
  have hc: "handleConversation (user_id student) ''Where is the exit?''
              ''Call campus security.'' (req_conversationId req_exit) ?w1 = (Inr 0, ?w2)"
    and f2: "faults ?w2 = [Some (Error ''MongoNetworkError'')]"
    using f1
    by (simp_all add: prod_eq_iff req_exit_def handleConversation_def createConversation_def
        Conversation_create_def db_op_def Let_def w_chat_down_def w_empty_def)
  from message_write_failure_tolerated [OF u q t pq] hc f2
  have "fst (askQuestion env_ok req_exit w_chat_down)
          = \<lparr>status = 200,
             json = AskSuccess ''Where is the exit?'' ''Call campus security.'' 0 []\<rparr>"
    and "ConsoleError ''Error saving chat history:''
           \<in> set (trace (snd (askQuestion env_ok req_exit w_chat_down)))"
    by auto
  moreover have "chats (snd (askQuestion env_ok req_exit w_chat_down)) = []"
    by (simp add: ask_defs env_ok_def req_exit_def student_def w_chat_down_def w_empty_def)
  ultimately show ?thesis
    using f2 by simp
qed

section \<open>Title of a new conversation\<close>

lemma askQuestion_conversations:
  assumes "askQuestion en req w = (resp, w')"
  shows "length (conversations w') = length (conversations w)
         \<or> (\<exists>q c. req_question req = Some q \<and> conversations w' = conversations w @ [c]
                  \<and> conv_title c = conversationTitle q)"
proof (cases "\<exists>u q. req_user req = Some u \<and> req_question req = Some q \<and> trim q \<noteq> []")
  case False
  with assms have "w' = w"
    by (auto simp: askQuestion_def trim_def split: option.splits if_splits)
  then show ?thesis by simp
next
  case True
  then obtain u q where u: "req_user req = Some u" and q: "req_question req = Some q"
    and t: "trim q \<noteq> []" by blast
  obtain r w1 where pq: "processQuestion en q w = (r, w1)"
    by (cases "processQuestion en q w")
  then have c1: "conversations w1 = conversations w"
    using processQuestion_fields(2) [of en q w] by simp
  show ?thesis
  proof (cases r)
    case (Inl e)
    with assms pq have "w' = emit (ConsoleError ''Chat error:'') w1"
      by (simp add: askQuestion_accepted [OF u q t] chatError_def)
    with c1 show ?thesis by simp
  next
    case (Inr ad)
    obtain a docs where ad: "ad = (a, docs)" by (cases ad)
    with assms pq Inr
    have "persistAndRespond (user_id u) q a docs (req_conversationId req) w1 = (resp, w')"
      by (simp add: askQuestion_accepted [OF u q t])
    from persistAndRespond_conversations [OF this] c1 q show ?thesis by auto
  qed
qed

lemma generateEmbedding_100540_conversations [simp]:
  "conversations (snd (generateEmbedding_100540 en txt w)) = conversations w"
  by (simp add: generateEmbedding_100540_def Let_def split: sum.splits option.splits)

lemma findRelevantDocumentsByEmbedding_conversations [simp]:
  "conversations (snd (findRelevantDocumentsByEmbedding en v limit w)) = conversations w"
  by (simp add: findRelevantDocumentsByEmbedding_def Let_def split: sum.splits)

lemma findRelevantDocuments_conversations [simp]:
  "conversations (snd (findRelevantDocuments en query limit w)) = conversations w"
  by (simp add: findRelevantDocuments_def Let_def split: sum.splits)

lemma generateAIResponse_conversations [simp]:
  "conversations (snd (generateAIResponse en question ctx w)) = conversations w"
  by (simp add: generateAIResponse_def Let_def split: sum.splits option.splits)

lemma askQuestion_100540_conversations:
  assumes "askQuestion_100540 en req w = (resp, w')"
  shows "length (conversations w') = length (conversations w)
         \<or> (\<exists>q c. req_question req = Some q \<and> conversations w' = conversations w @ [c]
                  \<and> conv_title c = conversationTitle q)"
proof (cases "\<exists>u q. req_user req = Some u \<and> req_question req = Some q \<and> trim q \<noteq> []
                \<and> length q \<le> 1000")
  case False
  with assms have "w' = w"
    by (auto simp: askQuestion_100540_def trim_def split: option.splits if_splits)
  then show ?thesis by simp
next
  case True
  then obtain u q where u: "req_user req = Some u" and q: "req_question req = Some q"
    and t: "trim q \<noteq> []" and l: "length q \<le> 1000" by blast
  let ?w1 = "snd (generateEmbedding_100540 en q w)"
  let ?emb = "fst (generateEmbedding_100540 en q w)"
  let ?search = "(case ?emb of
                    None \<Rightarrow> findRelevantDocuments en q 3 ?w1
                  | Some v \<Rightarrow>
                      (if length v > 0 then findRelevantDocumentsByEmbedding en v 3 ?w1
                       else findRelevantDocuments en q 3 ?w1))"
  let ?gen = "generateAIResponse en q (fst ?search) (snd ?search)"
  have c: "conversations (snd ?gen) = conversations w"
    by (simp split: option.splits)
  from u q t l
  have "askQuestion_100540 en req w
          = persistAndRespond (user_id u) q (fst ?gen) (fst ?search) (req_conversationId req)
              (snd ?gen)"
    by (auto simp: askQuestion_100540_def trim_def split_beta)
  with assms
  have "persistAndRespond (user_id u) q (fst ?gen) (fst ?search) (req_conversationId req)
          (snd ?gen) = (resp, w')"
    by simp
  from persistAndRespond_conversations [OF this] c q show ?thesis by auto
qed

text \<open>
  Claim C10. Whenever an ask request, handled by either controller snapshot, adds a
  conversation, exactly one is appended; its title is the question itself when the question
  has at most 50 code units, and otherwise its first 47 code units followed by \<^verbatim>\<open>...\<close>; in
  both cases the title has at most 50 code units.
\<close>

theorem new_conversation_title:
  assumes "askQuestion en req w = (resp, w') \<or> askQuestion_100540 en req w = (resp, w')"
    and "length (conversations w') \<noteq> length (conversations w)"
  shows "\<exists>q c. req_question req = Some q \<and> conversations w' = conversations w @ [c]
           \<and> conv_title c = (if length q \<le> 50 then q else take 47 q @ ''...'')
           \<and> length (conv_title c) \<le> 50"
proof -
  from assms askQuestion_conversations [of en req w resp w']
    askQuestion_100540_conversations [of en req w resp w']
  obtain q c where "req_question req = Some q" "conversations w' = conversations w @ [c]"
    "conv_title c = conversationTitle q"
    by blast
  moreover have "conversationTitle q = (if length q \<le> 50 then q else take 47 q @ ''...'')"
    by (simp add: conversationTitle_def)
  moreover have "length (conversationTitle q) \<le> 50"
    by (rule conversationTitle_length)
  ultimately show ?thesis by auto
qed

theorem new_conversation_title_witness:
  "map conv_title (conversations (snd (askQuestion env_ok req_exit w_empty)))
     = [''Where is the exit?'']
   \<and> map conv_title (conversations (snd (askQuestion_100540 env_ok req_wordy w_empty)))
     = [''Where is the nearest emergency exit of the main...'']"
proof -
  have a: "askQuestion env_ok req_exit w_empty
             = (fst (askQuestion env_ok req_exit w_empty), snd (askQuestion env_ok req_exit w_empty))
           \<or> askQuestion_100540 env_ok req_exit w_empty
             = (fst (askQuestion env_ok req_exit w_empty), snd (askQuestion env_ok req_exit w_empty))"
    by simp
  have b: "askQuestion env_ok req_wordy w_empty
             = (fst (askQuestion_100540 env_ok req_wordy w_empty),
                snd (askQuestion_100540 env_ok req_wordy w_empty))
           \<or> askQuestion_100540 env_ok req_wordy w_empty
             = (fst (askQuestion_100540 env_ok req_wordy w_empty),
                snd (askQuestion_100540 env_ok req_wordy w_empty))"
    by simp
  have la: "length (conversations (snd (askQuestion env_ok req_exit w_empty)))
              \<noteq> length (conversations w_empty)"
    by (simp add: ask_defs env_ok_def req_exit_def student_def w_empty_def)
  have lb: "length (conversations (snd (askQuestion_100540 env_ok req_wordy w_empty)))
              \<noteq> length (conversations w_empty)"
    by (simp add: askQuestion_100540_def generateEmbedding_100540_def
        findRelevantDocumentsByEmbedding_def findRelevantDocuments_def generateAIResponse_def
        ask_defs env_ok_def req_wordy_def student_def w_empty_def)
  from new_conversation_title [OF a la] new_conversation_title [OF b lb]
  show ?thesis
    by (auto simp: req_exit_def req_wordy_def w_empty_def)
qed

section \<open>Deletion cascades to the chunks\<close>

lemma find_doc_id: "find (\<lambda>d. doc_id d = i) ds = Some d \<Longrightarrow> d \<in> set ds \<and> doc_id d = i"
  by (induction ds) (auto split: if_splits)

lemma DocumentModel_findById_result:
  "DocumentModel_findById i w = (r, w') \<Longrightarrow>
     documents w' = documents w \<and> nextId w' = nextId w
     \<and> (\<forall>d. r = Inr (Some d) \<longrightarrow> d \<in> set (documents w) \<and> doc_id d = i)"
  by (auto simp: DocumentModel_findById_def db_op_def split: list.splits option.splits
      dest: find_doc_id)

lemma DocumentModel_deleteMany_parent_result:
  "DocumentModel_deleteMany_parent i w = (r, w') \<Longrightarrow>
     nextId w' = nextId w
     \<and> (case r of
           Inl e \<Rightarrow> documents w' = documents w
         | Inr u \<Rightarrow> documents w' = filter (\<lambda>d. parentDocumentId d \<noteq> Some i) (documents w))"
  by (auto simp: DocumentModel_deleteMany_parent_def db_op_def split: list.splits option.splits)

lemma document_deleteOne_result:
  "document_deleteOne d w = (r, w') \<Longrightarrow>
     nextId w' = nextId w
     \<and> (case r of
           Inl e \<Rightarrow> documents w' = documents w
         | Inr u \<Rightarrow> documents w' = filter (\<lambda>d'. doc_id d' \<noteq> doc_id d) (documents w))"
  by (auto simp: document_deleteOne_def db_op_def split: list.splits option.splits)

text \<open>Deleting never adds a document and never moves the id counter.\<close>

lemma deleteDocument_subset:
  assumes "deleteDocument req w = (resp, w')"
  shows "set (documents w') \<subseteq> set (documents w) \<and> nextId w' = nextId w"
proof (cases "del_user req")
  case None
  with assms show ?thesis by (simp add: deleteDocument_def)
next
  case (Some u)
  obtain f w1 where fb: "DocumentModel_findById (del_id req) w = (f, w1)"
    by (cases "DocumentModel_findById (del_id req) w")
  note f1 = DocumentModel_findById_result [OF fb]
  show ?thesis
  proof (cases f)
    case (Inl e)
    with assms Some fb f1 show ?thesis by (auto simp: deleteDocument_def deleteError_def)
  next
    case (Inr found)
    show ?thesis
    proof (cases found)
      case None
      with assms Some fb Inr f1 show ?thesis by (auto simp: deleteDocument_def)
    next
      case (Some d)
      obtain m w2 where dm: "(if hasChunks d then DocumentModel_deleteMany_parent (del_id req) w1
                              else (Inr (), w1)) = (m, w2)"
        by (cases "if hasChunks d then DocumentModel_deleteMany_parent (del_id req) w1
                   else (Inr (), w1)")
      have s2: "set (documents w2) \<subseteq> set (documents w1) \<and> nextId w2 = nextId w1"
      proof (cases "hasChunks d")
        case True
        with dm DocumentModel_deleteMany_parent_result [of "del_id req" w1 m w2]
        show ?thesis by (cases m) auto
      next
        case False
        with dm show ?thesis by auto
      qed
      show ?thesis
      proof (cases m)
        case (Inl e)
        with assms \<open>del_user req = Some u\<close> fb Inr Some dm f1 s2 show ?thesis
          by (auto simp: deleteDocument_def deleteError_def)
      next
        case (Inr u')
        obtain od w3 where d1: "document_deleteOne d w2 = (od, w3)"
          by (cases "document_deleteOne d w2")
        from document_deleteOne_result [OF d1]
        have s3: "set (documents w3) \<subseteq> set (documents w2) \<and> nextId w3 = nextId w2"
          by (cases od) auto
        from assms \<open>del_user req = Some u\<close> fb \<open>f = Inr found\<close> Some dm Inr d1
        have "w' = w3 \<or> w' = emit (ConsoleError ''Delete document error:'') w3"
          by (cases od) (auto simp: deleteDocument_def deleteError_def)
        with s3 s2 f1 show ?thesis by auto
      qed
    qed
  qed
qed

lemma store_ok_subset:
  "store_ok w \<Longrightarrow> set (documents w') \<subseteq> set (documents w) \<Longrightarrow> nextId w' = nextId w
   \<Longrightarrow> store_ok w'"
  unfolding store_ok_def by (fastforce split: option.splits)

lemma deleteDocument_store_ok:
  "store_ok w \<Longrightarrow> store_ok (snd (deleteDocument req w))"
  using deleteDocument_subset [of req w "fst (deleteDocument req w)" "snd (deleteDocument req w)"]
  by (auto intro: store_ok_subset)

text \<open>A document that is named as a parent passes the guard, so its chunks are deleted.\<close>

lemma store_ok_parent:
  "store_ok w \<Longrightarrow> c \<in> set (documents w) \<Longrightarrow> parentDocumentId c = Some p
   \<Longrightarrow> d \<in> set (documents w) \<Longrightarrow> doc_id d = p \<Longrightarrow> hasChunks d"
  unfolding store_ok_def by (fastforce split: option.splits)

lemma deleteDocument_200:
  assumes "deleteDocument req w = (resp, w')" and "status resp = 200"
  shows "\<exists>d. d \<in> set (documents w) \<and> doc_id d = del_id req
           \<and> documents w' =
               filter (\<lambda>d'. doc_id d' \<noteq> del_id req)
                 (if hasChunks d
                  then filter (\<lambda>c. parentDocumentId c \<noteq> Some (del_id req)) (documents w)
                  else documents w)"
proof -
  from assms obtain u where u: "del_user req = Some u"
    by (cases "del_user req") (auto simp: deleteDocument_def)
  obtain f w1 where fb: "DocumentModel_findById (del_id req) w = (f, w1)"
    by (cases "DocumentModel_findById (del_id req) w")
  note f1 = DocumentModel_findById_result [OF fb]
  from assms u fb obtain d where f: "f = Inr (Some d)"
    by (cases f; cases "projr f")
       (auto simp: deleteDocument_def deleteError_def split: option.splits)
  obtain m w2 where dm: "(if hasChunks d then DocumentModel_deleteMany_parent (del_id req) w1
                          else (Inr (), w1)) = (m, w2)"
    by (cases "if hasChunks d then DocumentModel_deleteMany_parent (del_id req) w1
               else (Inr (), w1)")
  from assms u fb f dm obtain u' where m: "m = Inr u'"
    by (cases m) (auto simp: deleteDocument_def deleteError_def)
  obtain od w3 where d1: "document_deleteOne d w2 = (od, w3)"
    by (cases "document_deleteOne d w2")
  from assms u fb f dm m d1 obtain u'' where od: "od = Inr u''" and w3: "w3 = w'"
    by (cases od) (auto simp: deleteDocument_def deleteError_def)
  have d2: "documents w2 =
              (if hasChunks d
               then filter (\<lambda>c. parentDocumentId c \<noteq> Some (del_id req)) (documents w)
               else documents w)"
  proof (cases "hasChunks d")
    case True
    with dm m DocumentModel_deleteMany_parent_result [of "del_id req" w1 m w2] f1
    show ?thesis by simp
  next
    case False
    with dm f1 show ?thesis by auto
  qed
  from document_deleteOne_result [OF d1] od w3 d2 f1 f
  show ?thesis
    by (intro exI [of _ d]) simp
qed

text \<open>
  Claim C8. In a store that satisfies the invariant of the document collection, when
  \<^verbatim>\<open>deleteDocument\<close> answers 200 for an id, no stored record names that id as its parent
  any more (the query for the chunks of the deleted document is empty), the document itself
  is gone, and the invariant still holds.
\<close>

theorem deleteDocument_cascade:
  assumes "store_ok w" and "deleteDocument req w = (resp, w')" and "status resp = 200"
  shows "chunksOf (del_id req) w' = []
         \<and> (\<forall>d \<in> set (documents w'). doc_id d \<noteq> del_id req)
         \<and> store_ok w'"
proof -
  from deleteDocument_200 [OF assms(2,3)] obtain d where
    d: "d \<in> set (documents w)" "doc_id d = del_id req"
    and docs: "documents w' =
               filter (\<lambda>d'. doc_id d' \<noteq> del_id req)
                 (if hasChunks d
                  then filter (\<lambda>c. parentDocumentId c \<noteq> Some (del_id req)) (documents w)
                  else documents w)"
    by blast
  have "parentDocumentId c \<noteq> Some (del_id req)" if "c \<in> set (documents w')" for c
  proof (cases "hasChunks d")
    case True
    with docs that show ?thesis by auto
  next
    case False
    from docs that have "c \<in> set (documents w)" by (auto split: if_splits)
    with store_ok_parent [OF assms(1) this _ d] False show ?thesis by blast
  qed
  then have "chunksOf (del_id req) w' = []"
    by (auto simp: chunksOf_def filter_empty_conv)
  moreover from docs have "\<forall>d \<in> set (documents w'). doc_id d \<noteq> del_id req"
    by auto
  moreover from deleteDocument_store_ok [OF assms(1), of req] assms(2) have "store_ok w'"
    by simp
  ultimately show ?thesis by simp
qed

text \<open>The invariant holds in the empty store and is kept by ingestion, whatever the outcome of
  the embedding provider and of the database writes.\<close>

lemma store_ok_empty: "store_ok w_empty"
  by (simp add: store_ok_def w_empty_def)

lemma store_ok_extend:
  assumes ok: "store_ok w"
    and docs: "documents w' = documents w @ new"
    and mono: "nextId w \<le> nextId w'"
    and new: "\<forall>c \<in> set new. nextId w \<le> doc_id c \<and> doc_id c < nextId w'
                \<and> (case parentDocumentId c of
                     None \<Rightarrow> True
                   | Some p \<Rightarrow> nextId w \<le> p \<and> p < nextId w'
                               \<and> (\<forall>d \<in> set new. doc_id d = p \<longrightarrow> hasChunks d))"
  shows "store_ok w'"
  unfolding store_ok_def
proof
  fix c assume "c \<in> set (documents w')"
  with docs consider (old) "c \<in> set (documents w)" | (new) "c \<in> set new" by auto
  then show "doc_id c < nextId w'
        \<and> (case parentDocumentId c of
             None \<Rightarrow> True
           | Some p \<Rightarrow>
               p < nextId w' \<and> (\<forall>d \<in> set (documents w'). doc_id d = p \<longrightarrow> hasChunks d))"
  proof cases
    case old
    with ok have id: "doc_id c < nextId w"
      and par: "\<And>p. parentDocumentId c = Some p \<Longrightarrow>
                  p < nextId w \<and> (\<forall>d \<in> set (documents w). doc_id d = p \<longrightarrow> hasChunks d)"
      unfolding store_ok_def by (auto split: option.splits)
    show ?thesis
    proof (cases "parentDocumentId c")
      case None
      with id mono show ?thesis by simp
    next
      case (Some p)
      from par [OF Some] have p: "p < nextId w"
        and h: "\<forall>d \<in> set (documents w). doc_id d = p \<longrightarrow> hasChunks d" by simp_all
      have "hasChunks d" if "d \<in> set (documents w')" "doc_id d = p" for d
      proof -
        from that docs new p have "d \<in> set (documents w)" by fastforce
        with h that show ?thesis by simp
      qed
      with Some id mono p show ?thesis by simp
    qed
  next
    case new
    with \<open>\<forall>c \<in> set new. _\<close> have id: "nextId w \<le> doc_id c" "doc_id c < nextId w'"
      and par: "\<And>p. parentDocumentId c = Some p \<Longrightarrow>
                  nextId w \<le> p \<and> p < nextId w'
                  \<and> (\<forall>d \<in> set new. doc_id d = p \<longrightarrow> hasChunks d)"
      by (auto split: option.splits)
    show ?thesis
    proof (cases "parentDocumentId c")
      case None
      with id show ?thesis by simp
    next
      case (Some p)
      from par [OF Some] have p: "nextId w \<le> p" "p < nextId w'"
        and h: "\<forall>d \<in> set new. doc_id d = p \<longrightarrow> hasChunks d" by simp_all
      have "hasChunks d" if "d \<in> set (documents w')" "doc_id d = p" for d
      proof -
        from ok have "\<forall>d \<in> set (documents w). doc_id d < nextId w"
          unfolding store_ok_def by simp
        with that docs p have "d \<in> set new" by fastforce
        with h that show ?thesis by simp
      qed
      with Some id p show ?thesis by simp
    qed
  qed
qed

lemma writeChunks_any:
  "writeChunks en ttl cat tgs uid pid n k0 ics w = (err, w') \<Longrightarrow>
     nextId w \<le> nextId w'
     \<and> (\<exists>cs. documents w' = documents w @ cs
            \<and> (\<forall>c \<in> set cs. parentDocumentId c = Some pid \<and> nextId w \<le> doc_id c
                   \<and> doc_id c < nextId w')
            \<and> (ics = [] \<longrightarrow> cs = []))"
proof (induction ics arbitrary: w w' err)
  case Nil
  then show ?case by simp
next
  case (Cons ic rest)
  obtain i c where ic: "ic = (i, c)" by (cases ic)
  obtain emb w1 where er: "embeddingResponse en (k0 + i) (chunk_text c) w = (emb, w1)"
    by (cases "embeddingResponse en (k0 + i) (chunk_text c) w")
  let ?new = "chunkDocument ttl cat tgs uid pid n i c (embeddingOrEmpty emb)"
  obtain r w2 where cr: "DocumentModel_create ?new w1 = (r, w2)"
    by (cases "DocumentModel_create ?new w1")
  obtain err' w3 where rc: "writeChunks en ttl cat tgs uid pid n k0 rest w2 = (err', w3)"
    by (cases "writeChunks en ttl cat tgs uid pid n k0 rest w2")
  from Cons.prems ic er cr rc have w3: "w3 = w'" by simp
  from er have w1: "documents w1 = documents w" "nextId w1 = nextId w"
    using embeddingResponse_fields(1,4) [of en "k0 + i" "chunk_text c" w] by simp_all
  from Cons.IH [OF rc] w3 obtain cs where
    m: "nextId w2 \<le> nextId w'" and cs: "documents w' = documents w2 @ cs"
    and all: "\<forall>c \<in> set cs. parentDocumentId c = Some pid \<and> nextId w2 \<le> doc_id c
                \<and> doc_id c < nextId w'"
    by auto
  show ?case
  proof (cases r)
    case (Inl e)
    with cr have "documents w2 = documents w1" "nextId w2 = nextId w1"
      by (auto dest: DocumentModel_create_Inl)
    with w1 m cs all show ?thesis by auto
  next
    case (Inr d)
    with cr have d: "d = ?new\<lparr>doc_id := nextId w1\<rparr>" "documents w2 = documents w1 @ [d]"
      "nextId w2 = Suc (nextId w1)"
      by (auto dest: DocumentModel_create_Inr)
    then have "parentDocumentId d = Some pid" "doc_id d = nextId w"
      using w1 by (simp_all add: chunkDocument_def)
    with d w1 m cs all show ?thesis
      by (intro conjI exI [of _ "d # cs"]) auto
  qed
qed

lemma createChunks_any:
  "createChunks en ttl cat tgs uid pid n chunks w = (err, w') \<Longrightarrow>
     nextId w \<le> nextId w'
     \<and> (\<exists>cs. documents w' = documents w @ cs
            \<and> (\<forall>c \<in> set cs. parentDocumentId c = Some pid \<and> nextId w \<le> doc_id c
                   \<and> doc_id c < nextId w')
            \<and> (chunks = [] \<longrightarrow> cs = []))"
proof -
  assume "createChunks en ttl cat tgs uid pid n chunks w = (err, w')"
  then have "writeChunks en ttl cat tgs uid pid n (length (trace w))
               (arrivalOrder en (length (trace w)) chunks)
               (sendEmbeddingRequests en chunks w) = (err, w')"
    by (simp add: createChunks_def)
  from writeChunks_any [OF this] show ?thesis
    by (auto simp: arrivalOrder_def)
qed

lemma processAndSaveDocument_store_ok:
  assumes ok: "store_ok w"
  shows "store_ok (snd (processAndSaveDocument en ttl cont userId cat tgs w))"
proof (cases "length (cleanText en cont) > 2000")
  case True
  let ?chunks = "chunkText en (cleanText en cont) 1000 200"
  let ?p = "\<lparr>doc_id = 0, title = ttl, content = cleanText en cont,
              category = categoryOrOther cat, tags = tagsOrEmpty tgs, embedding = [],
              uploadedBy = userId, isPublic = True, isChunk = False,
              parentDocumentId = None, chunkIndex = None,
              chunkCount = Some (length ?chunks)\<rparr>"
  obtain r w1 where cr: "DocumentModel_create ?p w = (r, w1)"
    by (cases "DocumentModel_create ?p w")
  show ?thesis
  proof (cases r)
    case (Inl e)
    with cr True have "snd (processAndSaveDocument en ttl cont userId cat tgs w) = w1"
      by (simp add: processAndSaveDocument_def Let_def)
    moreover from cr Inl have "documents w1 = documents w" "nextId w1 = nextId w"
      by (auto dest: DocumentModel_create_Inl)
    ultimately show ?thesis
      using store_ok_subset [OF ok, of w1] by simp
  next
    case (Inr parent)
    with cr have parent: "parent = ?p\<lparr>doc_id := nextId w\<rparr>"
      and docs1: "documents w1 = documents w @ [parent]" and n1: "nextId w1 = Suc (nextId w)"
      by (auto dest: DocumentModel_create_Inr)
    obtain err w2 where cc: "createChunks en ttl (categoryOrOther cat) (tagsOrEmpty tgs) userId
        (doc_id parent) (length ?chunks) ?chunks w1 = (err, w2)"
      by (cases "createChunks en ttl (categoryOrOther cat) (tagsOrEmpty tgs) userId
        (doc_id parent) (length ?chunks) ?chunks w1")
    with cr Inr True have w2: "snd (processAndSaveDocument en ttl cont userId cat tgs w) = w2"
      by (simp add: processAndSaveDocument_def Let_def split: option.splits)
    from createChunks_any [OF cc] obtain cs where
      m: "nextId w1 \<le> nextId w2" and docs2: "documents w2 = documents w1 @ cs"
      and all: "\<forall>c \<in> set cs. parentDocumentId c = Some (doc_id parent) \<and> nextId w1 \<le> doc_id c
                  \<and> doc_id c < nextId w2"
      and none: "?chunks = [] \<longrightarrow> cs = []"
      by auto
    have hc: "hasChunks parent" if "cs \<noteq> []"
    proof -
      from that none have "?chunks \<noteq> []" by auto
      with parent show ?thesis by (simp add: hasChunks_def)
    qed
    have "store_ok w2"
    proof (rule store_ok_extend [OF ok, of w2 "parent # cs"])
      show "documents w2 = documents w @ parent # cs"
        using docs1 docs2 by simp
      show "nextId w \<le> nextId w2"
        using n1 m by simp
      show "\<forall>c \<in> set (parent # cs). nextId w \<le> doc_id c \<and> doc_id c < nextId w2
                \<and> (case parentDocumentId c of
                     None \<Rightarrow> True
                   | Some p \<Rightarrow> nextId w \<le> p \<and> p < nextId w2
                               \<and> (\<forall>d \<in> set (parent # cs). doc_id d = p \<longrightarrow> hasChunks d))"
      proof
        fix c assume "c \<in> set (parent # cs)"
        then consider "c = parent" | "c \<in> set cs" by auto
        then show "nextId w \<le> doc_id c \<and> doc_id c < nextId w2
                \<and> (case parentDocumentId c of
                     None \<Rightarrow> True
                   | Some p \<Rightarrow> nextId w \<le> p \<and> p < nextId w2
                               \<and> (\<forall>d \<in> set (parent # cs). doc_id d = p \<longrightarrow> hasChunks d))"
        proof cases
          case 1
          with parent n1 m show ?thesis by simp
        next
          case 2
          with all have c: "parentDocumentId c = Some (doc_id parent)"
            "nextId w1 \<le> doc_id c" "doc_id c < nextId w2" by auto
          from 2 have ne: "cs \<noteq> []" by auto
          have "hasChunks d" if "d \<in> set (parent # cs)" "doc_id d = doc_id parent" for d
          proof -
            from that all parent n1 have "d = parent" by fastforce
            with hc [OF ne] show ?thesis by simp
          qed
          with c parent n1 m show ?thesis by simp
        qed
      qed
    qed
    with w2 show ?thesis by simp
  qed
next
  case False
  let ?t = "cleanText en cont"
  obtain emb w1 where ge: "generateEmbedding en ?t w = (emb, w1)"
    by (cases "generateEmbedding en ?t w")
  then have w1: "documents w1 = documents w" "nextId w1 = nextId w"
    using generateEmbedding_fields(1,4) [of en ?t w] by simp_all
  let ?d = "\<lparr>doc_id = 0, title = ttl, content = ?t,
              category = categoryOrOther cat, tags = tagsOrEmpty tgs,
              embedding = embeddingOrEmpty emb,
              uploadedBy = userId, isPublic = True, isChunk = False,
              parentDocumentId = None, chunkIndex = None, chunkCount = None\<rparr>"
  obtain r w2 where cr: "DocumentModel_create ?d w1 = (r, w2)"
    by (cases "DocumentModel_create ?d w1")
  with False ge have w2: "snd (processAndSaveDocument en ttl cont userId cat tgs w) = w2"
    by (cases r) (simp_all add: processAndSaveDocument_def Let_def)
  show ?thesis
  proof (cases r)
    case (Inl e)
    with cr have "documents w2 = documents w1" "nextId w2 = nextId w1"
      by (auto dest: DocumentModel_create_Inl)
    with w1 w2 store_ok_subset [OF ok, of w2] show ?thesis by simp
  next
    case (Inr d)
    with cr have d: "d = ?d\<lparr>doc_id := nextId w1\<rparr>" "documents w2 = documents w1 @ [d]"
      "nextId w2 = Suc (nextId w1)"
      by (auto dest: DocumentModel_create_Inr)
    have "store_ok w2"
      by (rule store_ok_extend [OF ok, of w2 "[d]"]) (use d w1 in simp_all)
    with w2 show ?thesis by simp
  qed
qed

text \<open>With no database fault, an authenticated request to delete a stored document
  succeeds.\<close>

lemma deleteDocument_succeeds:
  "del_user req = Some u \<Longrightarrow> d \<in> set (documents w) \<Longrightarrow> doc_id d = del_id req
   \<Longrightarrow> faults w = [] \<Longrightarrow> status (fst (deleteDocument req w)) = 200"
proof -
  assume a: "del_user req = Some u" "d \<in> set (documents w)" "doc_id d = del_id req"
    "faults w = []"
  then have "find (\<lambda>d. doc_id d = del_id req) (documents w) \<noteq> None"
    by (auto simp: find_None_iff)
  with a show ?thesis
    by (auto simp: deleteDocument_def DocumentModel_findById_def
        DocumentModel_deleteMany_parent_def document_deleteOne_def db_op_def)
qed

theorem deleteDocument_cascade_witness:
  "store_ok w_handbook
   \<and> map doc_id (chunksOf 0 w_handbook) = [1, 2]
   \<and> status (fst (deleteDocument req_delete_handbook w_handbook)) = 200
   \<and> chunksOf (del_id req_delete_handbook) (snd (deleteDocument req_delete_handbook w_handbook))
       = []"
proof -
  have ok: "store_ok w_handbook"
    unfolding w_handbook_def
    by (rule processAndSaveDocument_store_ok [OF store_ok_empty])
  have docs: "map doc_id (documents w_handbook) = [0, 1, 2]"
    and chunks: "map doc_id (chunksOf 0 w_handbook) = [1, 2]"
    and f: "faults w_handbook = []"
    by (simp_all add: w_handbook_def ingest_handbook chunksOf_def)
  from docs obtain d where d: "d \<in> set (documents w_handbook)" "doc_id d = 0"
    by (cases "documents w_handbook") auto
  have st: "status (fst (deleteDocument req_delete_handbook w_handbook)) = 200"
    by (rule deleteDocument_succeeds [OF _ d(1) _ f, of _ student])
       (simp_all add: req_delete_handbook_def d(2))
  have run: "deleteDocument req_delete_handbook w_handbook
               = (fst (deleteDocument req_delete_handbook w_handbook),
                  snd (deleteDocument req_delete_handbook w_handbook))"
    by simp
  from deleteDocument_cascade [OF ok run st] ok chunks st show ?thesis
    by simp
qed

end
